theory Spec2Isabelle
  imports Main "HOL-Library.Word"
begin

unbundle bit_operations_syntax

section \<open>Py106.Packet: packet data types\<close>

text \<open>
  The module \<^verbatim>\<open>python/Py106/Packet.py\<close> is a thin object layer over the native IRIG 106
  library, reached through ctypes. This theory embeds the module: the \<^verbatim>\<open>DataType\<close> table,
  the \<^verbatim>\<open>Header\<close> structure with its ctypes layout, and the \<^verbatim>\<open>IO\<close> class, whose methods
  take the native library as a parameter.
\<close>

subsection \<open>DataType: the packet message types\<close>

type_synonym u8 = "8 word"
type_synonym u16 = "16 word"
type_synonym u32 = "32 word"
type_synonym u64 = "64 word"

text \<open>The class attributes of \<^verbatim>\<open>DataType\<close>, in the order of the source.\<close>

abbreviation (input) COMPUTER_0 :: u8 where "COMPUTER_0 \<equiv> 0x00"
abbreviation (input) USER_DEFINED :: u8 where "USER_DEFINED \<equiv> 0x00"
abbreviation (input) COMPUTER_1 :: u8 where "COMPUTER_1 \<equiv> 0x01"
abbreviation (input) TMATS :: u8 where "TMATS \<equiv> 0x01"
abbreviation (input) COMPUTER_2 :: u8 where "COMPUTER_2 \<equiv> 0x02"
abbreviation (input) RECORDING_EVENT :: u8 where "RECORDING_EVENT \<equiv> 0x02"
abbreviation (input) COMPUTER_3 :: u8 where "COMPUTER_3 \<equiv> 0x03"
abbreviation (input) RECORDING_INDEX :: u8 where "RECORDING_INDEX \<equiv> 0x03"
abbreviation (input) COMPUTER_4 :: u8 where "COMPUTER_4 \<equiv> 0x04"
abbreviation (input) COMPUTER_5 :: u8 where "COMPUTER_5 \<equiv> 0x05"
abbreviation (input) COMPUTER_6 :: u8 where "COMPUTER_6 \<equiv> 0x06"
abbreviation (input) COMPUTER_7 :: u8 where "COMPUTER_7 \<equiv> 0x07"
abbreviation (input) PCM_FMT_0 :: u8 where "PCM_FMT_0 \<equiv> 0x08"
abbreviation (input) PCM_FMT_1 :: u8 where "PCM_FMT_1 \<equiv> 0x09"
abbreviation (input) IRIG_TIME :: u8 where "IRIG_TIME \<equiv> 0x11"
abbreviation (input) MIL1553_FMT_1 :: u8 where "MIL1553_FMT_1 \<equiv> 0x19"
abbreviation (input) MIL1553_16PP194 :: u8 where "MIL1553_16PP194 \<equiv> 0x1A"
abbreviation (input) ANALOG :: u8 where "ANALOG \<equiv> 0x21"
abbreviation (input) DISCRETE :: u8 where "DISCRETE \<equiv> 0x29"
abbreviation (input) MESSAGE :: u8 where "MESSAGE \<equiv> 0x30"
abbreviation (input) ARINC_429_FMT_0 :: u8 where "ARINC_429_FMT_0 \<equiv> 0x38"
abbreviation (input) VIDEO_FMT_0 :: u8 where "VIDEO_FMT_0 \<equiv> 0x40"
abbreviation (input) VIDEO_FMT_1 :: u8 where "VIDEO_FMT_1 \<equiv> 0x41"
abbreviation (input) VIDEO_FMT_2 :: u8 where "VIDEO_FMT_2 \<equiv> 0x42"
abbreviation (input) IMAGE_FMT_0 :: u8 where "IMAGE_FMT_0 \<equiv> 0x48"
abbreviation (input) IMAGE_FMT_1 :: u8 where "IMAGE_FMT_1 \<equiv> 0x49"
abbreviation (input) UART_FMT_0 :: u8 where "UART_FMT_0 \<equiv> 0x50"
abbreviation (input) IEEE1394_FMT_0 :: u8 where "IEEE1394_FMT_0 \<equiv> 0x58"
abbreviation (input) IEEE1394_FMT_1 :: u8 where "IEEE1394_FMT_1 \<equiv> 0x59"
abbreviation (input) PARALLEL_FMT_0 :: u8 where "PARALLEL_FMT_0 \<equiv> 0x60"
abbreviation (input) ETHERNET_FMT_0 :: u8 where "ETHERNET_FMT_0 \<equiv> 0x68"
abbreviation (input) CAN_BUS :: u8 where "CAN_BUS \<equiv> 0x78"
abbreviation (input) FIBRE_CHAN_FMT_0 :: u8 where "FIBRE_CHAN_FMT_0 \<equiv> 0x79"
abbreviation (input) FIBRE_CHAN_FMT_1 :: u8 where "FIBRE_CHAN_FMT_1 \<equiv> 0x7A"

text \<open>
  The dictionary display \<^verbatim>\<open>name = {...}\<close> of \<^verbatim>\<open>TypeName\<close>, as the list of its
  key/value pairs in source order.
\<close>

definition name :: "(u8 \<times> string) list" where
  "name =
    [(USER_DEFINED, ''User Defined''),
     (TMATS, ''TMATS''),
     (RECORDING_EVENT, ''Event''),
     (RECORDING_INDEX, ''Index''),
     (COMPUTER_4, ''Computer Generated 4''),
     (COMPUTER_5, ''Computer Generated 5''),
     (COMPUTER_6, ''Computer Generated 6''),
     (COMPUTER_7, ''Computer Generated 7''),
     (PCM_FMT_0, ''PCM Format 0''),
     (PCM_FMT_1, ''PCM Format 1''),
     (IRIG_TIME, ''Time''),
     (MIL1553_FMT_1, ''1553''),
     (MIL1553_16PP194, ''16PP194''),
     (ANALOG, ''Analog''),
     (DISCRETE, ''Discrete''),
     (MESSAGE, ''Message''),
     (ARINC_429_FMT_0, ''ARINC 429''),
     (VIDEO_FMT_0, ''Video Format 0''),
     (VIDEO_FMT_1, ''Video Format 1''),
     (VIDEO_FMT_2, ''Video Format 2''),
     (IMAGE_FMT_0, ''Image Format 0''),
     (IMAGE_FMT_1, ''Image Format 1''),
     (UART_FMT_0, ''UART''),
     (IEEE1394_FMT_0, ''IEEE 1394 Format 0''),
     (IEEE1394_FMT_1, ''IEEE 1394 Format 1''),
     (PARALLEL_FMT_0, ''Parallel''),
     (ETHERNET_FMT_0, ''Ethernet''),
     (CAN_BUS, ''CAN Bus''),
     (FIBRE_CHAN_FMT_0, ''Fibre Channel Format 0''),
     (FIBRE_CHAN_FMT_1, ''Fibre Channel Format 1'')]"

text \<open>
  A Python dictionary display keeps, for a key written twice, the value written last;
  \<open>dict_display\<close> reads the pairs accordingly. \<open>dict_get d k v\<close> is \<^verbatim>\<open>d.get(k, v)\<close>.
\<close>

definition dict_display :: "('k \<times> 'v) list \<Rightarrow> ('k \<rightharpoonup> 'v)" where
  "dict_display kvs = map_of (rev kvs)"

definition dict_get :: "('k \<rightharpoonup> 'v) \<Rightarrow> 'k \<Rightarrow> 'v \<Rightarrow> 'v" where
  "dict_get d k v = (case d k of None \<Rightarrow> v | Some x \<Rightarrow> x)"

definition TypeName :: "u8 \<Rightarrow> string" where
  "TypeName TypeNum = dict_get (dict_display name) TypeNum ''Undefined''"

text \<open>The codes that are keys of the table.\<close>

definition named_codes :: "u8 list" where
  "named_codes = map fst name"

subsection \<open>Header: the ctypes structure\<close>

text \<open>
  \<^verbatim>\<open>Header\<close> is a \<^verbatim>\<open>ctypes.Structure\<close>: a block of memory with named, typed fields. The
  field types the structure uses, with the size and the natural alignment ctypes gives them.
\<close>

datatype ctype = c_uint8 | c_uint16 | c_uint32 | c_array ctype nat

fun sizeof :: "ctype \<Rightarrow> nat" where
  "sizeof c_uint8 = 1"
| "sizeof c_uint16 = 2"
| "sizeof c_uint32 = 4"
| "sizeof (c_array t n) = n * sizeof t"

fun alignment :: "ctype \<Rightarrow> nat" where
  "alignment c_uint8 = 1"
| "alignment c_uint16 = 2"
| "alignment c_uint32 = 4"
| "alignment (c_array t n) = alignment t"

text \<open>The class attributes \<^verbatim>\<open>_pack_\<close> and \<^verbatim>\<open>_fields_\<close> of \<^verbatim>\<open>Header\<close>.\<close>

definition Header_pack :: nat where
  "Header_pack = 1"

definition Header_fields :: "(string \<times> ctype) list" where
  "Header_fields =
    [(''Sync'', c_uint16),
     (''ChID'', c_uint16),
     (''PacketLen'', c_uint32),
     (''DataLen'', c_uint32),
     (''HdrVer'', c_uint8),
     (''SeqNum'', c_uint8),
     (''PacketFlags'', c_uint8),
     (''DataType'', c_uint8),
     (''RefTime'', c_array c_uint8 6),
     (''Checksum'', c_uint16),
     (''Time'', c_array c_uint32 2),
     (''Reserved'', c_uint16),
     (''SecChecksum'', c_uint16)]"

text \<open>
  The layout ctypes computes: fields in declaration order, each at the next offset that
  is a multiple of its alignment, the alignment being capped by \<^verbatim>\<open>_pack_\<close>; the size of
  the structure is the end of the last field, rounded up to the largest field alignment.
\<close>

definition align_up :: "nat \<Rightarrow> nat \<Rightarrow> nat" where
  "align_up off a = ((off + a - 1) div a) * a"

definition field_align :: "nat \<Rightarrow> ctype \<Rightarrow> nat" where
  "field_align pack t = (if pack = 0 then alignment t else min pack (alignment t))"

fun field_offsets :: "nat \<Rightarrow> nat \<Rightarrow> (string \<times> ctype) list \<Rightarrow> (string \<times> nat) list" where
  "field_offsets pack off [] = []"
| "field_offsets pack off ((n, t) # fs) =
    (let at = align_up off (field_align pack t)
     in (n, at) # field_offsets pack (at + sizeof t) fs)"

fun fields_end :: "nat \<Rightarrow> nat \<Rightarrow> (string \<times> ctype) list \<Rightarrow> nat" where
  "fields_end pack off [] = off"
| "fields_end pack off ((n, t) # fs) =
    fields_end pack (align_up off (field_align pack t) + sizeof t) fs"

definition struct_size :: "nat \<Rightarrow> (string \<times> ctype) list \<Rightarrow> nat" where
  "struct_size pack fs =
    align_up (fields_end pack 0 fs) (fold max (map (\<lambda>(n, t). field_align pack t) fs) 1)"

definition Header_layout :: "(string \<times> nat) list" where
  "Header_layout = field_offsets Header_pack 0 Header_fields"

definition Header_size :: nat where
  "Header_size = struct_size Header_pack Header_fields"

text \<open>
  A \<^verbatim>\<open>Header\<close> object is its memory. \<^verbatim>\<open>Header()\<close> makes a zero-filled one. Reading a field
  decodes the bytes at the offset of the field. \<^verbatim>\<open>ctypes.Structure\<close> has the byte order of
  the host; the libraries the module loads are x86 builds, so the host is taken to be
  little-endian.
\<close>

type_synonym Header = "u8 list"

definition Header_new :: Header where
  "Header_new = replicate Header_size 0"

fun uint_le :: "u8 list \<Rightarrow> nat" where
  "uint_le [] = 0"
| "uint_le (b # bs) = unat b + 256 * uint_le bs"

definition field_bytes :: "string \<Rightarrow> Header \<Rightarrow> u8 list" where
  "field_bytes n h =
    (case (map_of Header_layout n, map_of Header_fields n) of
       (Some off, Some t) \<Rightarrow> take (sizeof t) (drop off h)
     | _ \<Rightarrow> [])"

definition Sync :: "Header \<Rightarrow> u16" where
  "Sync h = of_nat (uint_le (field_bytes ''Sync'' h))"

definition ChID :: "Header \<Rightarrow> u16" where
  "ChID h = of_nat (uint_le (field_bytes ''ChID'' h))"

definition PacketLen :: "Header \<Rightarrow> u32" where
  "PacketLen h = of_nat (uint_le (field_bytes ''PacketLen'' h))"

definition DataLen :: "Header \<Rightarrow> u32" where
  "DataLen h = of_nat (uint_le (field_bytes ''DataLen'' h))"

definition HdrVer :: "Header \<Rightarrow> u8" where
  "HdrVer h = of_nat (uint_le (field_bytes ''HdrVer'' h))"

definition SeqNum :: "Header \<Rightarrow> u8" where
  "SeqNum h = of_nat (uint_le (field_bytes ''SeqNum'' h))"

definition PacketFlags :: "Header \<Rightarrow> u8" where
  "PacketFlags h = of_nat (uint_le (field_bytes ''PacketFlags'' h))"

definition DataType :: "Header \<Rightarrow> u8" where
  "DataType h = of_nat (uint_le (field_bytes ''DataType'' h))"

definition RefTime :: "Header \<Rightarrow> u8 list" where
  "RefTime h = field_bytes ''RefTime'' h"

definition Checksum :: "Header \<Rightarrow> u16" where
  "Checksum h = of_nat (uint_le (field_bytes ''Checksum'' h))"

definition Time :: "Header \<Rightarrow> u32 list" where
  "Time h =
    [of_nat (uint_le (take 4 (field_bytes ''Time'' h))),
     of_nat (uint_le (drop 4 (field_bytes ''Time'' h)))]"

definition Reserved :: "Header \<Rightarrow> u16" where
  "Reserved h = of_nat (uint_le (field_bytes ''Reserved'' h))"

definition SecChecksum :: "Header \<Rightarrow> u16" where
  "SecChecksum h = of_nat (uint_le (field_bytes ''SecChecksum'' h))"

subsection \<open>Status codes and the native library\<close>

text \<open>
  Modelled from the spec: the module \<^verbatim>\<open>Py106.Status\<close> is not part of the sources. The
  status values are the ones the specification names (section 6).
\<close>

datatype StatusCode =
  OK | EndOfFile | BeginningOfFile | FormatError | ShortRead | NotFound | AccessDenied
  | InvalidHandle

text \<open>
  The native library \<^verbatim>\<open>IrigDataDll\<close> is loaded at module initialisation and is not part
  of the sources either. The methods of \<^verbatim>\<open>IO\<close> take it as a parameter: a record of the
  nine entry points the module calls, each a function of the library's own state \<open>'d\<close>
  (the open files and their positions). An argument passed with \<^verbatim>\<open>ctypes.byref\<close> is passed
  in and returned. The arguments are what the library receives: the module declares no
  \<^verbatim>\<open>argtypes\<close>, so a Python integer passed by value arrives as a C \<^verbatim>\<open>int\<close> of 32 bits
  (the file mode, the buffer size), and a \<^verbatim>\<open>bytes\<close> object as a C string, which ends at
  its first zero byte. The offset of \<^verbatim>\<open>enI106Ch10SetPos\<close> is a parameter of 64 bits, as
  the \<^verbatim>\<open>c_uint64\<close> of \<^verbatim>\<open>enI106Ch10GetPos\<close> is. \<^verbatim>\<open>enI106Ch10ReadData\<close> is given the memory
  of the buffer and returns the bytes it wrote from the start of it.
\<close>

type_synonym c_int = "32 word"

record 'd IrigDataDll =
  enI106Ch10Open :: "'d \<Rightarrow> u32 \<Rightarrow> u8 list \<Rightarrow> c_int \<Rightarrow> StatusCode \<times> u32 \<times> 'd"
  enI106Ch10Close :: "'d \<Rightarrow> u32 \<Rightarrow> StatusCode \<times> 'd"
  enI106Ch10ReadNextHeader :: "'d \<Rightarrow> u32 \<Rightarrow> Header \<Rightarrow> StatusCode \<times> Header \<times> 'd"
  enI106Ch10ReadPrevHeader :: "'d \<Rightarrow> u32 \<Rightarrow> Header \<Rightarrow> StatusCode \<times> Header \<times> 'd"
  enI106Ch10ReadData :: "'d \<Rightarrow> u32 \<Rightarrow> c_int \<Rightarrow> u8 list \<Rightarrow> StatusCode \<times> u8 list \<times> 'd"
  enI106Ch10FirstMsg :: "'d \<Rightarrow> u32 \<Rightarrow> StatusCode \<times> 'd"
  enI106Ch10LastMsg :: "'d \<Rightarrow> u32 \<Rightarrow> StatusCode \<times> 'd"
  enI106Ch10SetPos :: "'d \<Rightarrow> u32 \<Rightarrow> u64 \<Rightarrow> StatusCode \<times> 'd"
  enI106Ch10GetPos :: "'d \<Rightarrow> u32 \<Rightarrow> u64 \<Rightarrow> StatusCode \<times> u64 \<times> 'd"

subsection \<open>Direct calls into the library\<close>

text \<open>
  A Python string is a list of code points. \<^verbatim>\<open>str.encode('ascii')\<close> raises
  \<^verbatim>\<open>UnicodeEncodeError\<close> when a code point is 128 or more.
\<close>

datatype py_error = UnicodeEncodeError | ArgumentError | MemoryError

definition encode_ascii :: "nat list \<Rightarrow> py_error + u8 list" where
  "encode_ascii s =
    (if list_all (\<lambda>c. c < 128) s then Inr (map of_nat s) else Inl UnicodeEncodeError)"

text \<open>
  What ctypes makes of an argument of a foreign function that has no \<^verbatim>\<open>argtypes\<close>. A
  Python integer is converted to a C \<^verbatim>\<open>int\<close>: the call raises \<^verbatim>\<open>ctypes.ArgumentError\<close>
  when the value fits neither a C \<^verbatim>\<open>long\<close> nor an \<^verbatim>\<open>unsigned long\<close> (of 64 bits, where
  the library is \<^verbatim>\<open>libirig106.so\<close>), and otherwise keeps the low 32 bits. A parameter of
  64 bits that is handed a C \<^verbatim>\<open>int\<close> receives it sign-extended. A \<^verbatim>\<open>bytes\<close> object is
  passed as a pointer to its bytes, which the library reads as a C string.
\<close>

definition c_int_param :: "int \<Rightarrow> py_error + c_int" where
  "c_int_param v =
    (if - (2 ^ 63) \<le> v \<and> v < 2 ^ 64 then Inr (word_of_int v) else Inl ArgumentError)"

definition int_as_64 :: "c_int \<Rightarrow> u64" where
  "int_as_64 w = scast w"

definition c_string :: "u8 list \<Rightarrow> u8 list" where
  "c_string bs = takeWhile (\<lambda>b. b \<noteq> 0) bs"

definition I106_Ch10Open ::
  "'d IrigDataDll \<Rightarrow> 'd \<Rightarrow> nat list \<Rightarrow> int \<Rightarrow> py_error + ((StatusCode \<times> u32) \<times> 'd)" where
  "I106_Ch10Open D d file_name file_mode =
    (case encode_ascii file_name of
       Inl e \<Rightarrow> Inl e
     | Inr name_bytes \<Rightarrow>
         (case c_int_param file_mode of
            Inl e \<Rightarrow> Inl e
          | Inr mode \<Rightarrow>
              (case enI106Ch10Open D d 0 (c_string name_bytes) mode of
                 (ret_status, handle, d') \<Rightarrow> Inr ((ret_status, handle), d'))))"

definition I106_Ch10Close :: "'d IrigDataDll \<Rightarrow> 'd \<Rightarrow> u32 \<Rightarrow> StatusCode \<times> 'd" where
  "I106_Ch10Close D d handle = enI106Ch10Close D d handle"

definition I106_Ch10ReadNextHeader ::
  "'d IrigDataDll \<Rightarrow> 'd \<Rightarrow> u32 \<Rightarrow> Header \<Rightarrow> StatusCode \<times> Header \<times> 'd" where
  "I106_Ch10ReadNextHeader D d handle pkt_header =
    enI106Ch10ReadNextHeader D d handle pkt_header"

definition I106_Ch10ReadPrevHeader ::
  "'d IrigDataDll \<Rightarrow> 'd \<Rightarrow> u32 \<Rightarrow> Header \<Rightarrow> StatusCode \<times> Header \<times> 'd" where
  "I106_Ch10ReadPrevHeader D d handle pkt_header =
    enI106Ch10ReadPrevHeader D d handle pkt_header"

definition I106_Ch10ReadData ::
  "'d IrigDataDll \<Rightarrow> 'd \<Rightarrow> u32 \<Rightarrow> int \<Rightarrow> u8 list \<Rightarrow>
     py_error + (StatusCode \<times> u8 list \<times> 'd)" where
  "I106_Ch10ReadData D d handle buff_size data_buff =
    (case c_int_param buff_size of
       Inl e \<Rightarrow> Inl e
     | Inr n \<Rightarrow> Inr (enI106Ch10ReadData D d handle n data_buff))"

definition I106_Ch10FirstMsg :: "'d IrigDataDll \<Rightarrow> 'd \<Rightarrow> u32 \<Rightarrow> StatusCode \<times> 'd" where
  "I106_Ch10FirstMsg D d handle = enI106Ch10FirstMsg D d handle"

definition I106_Ch10LastMsg :: "'d IrigDataDll \<Rightarrow> 'd \<Rightarrow> u32 \<Rightarrow> StatusCode \<times> 'd" where
  "I106_Ch10LastMsg D d handle = enI106Ch10LastMsg D d handle"

definition I106_Ch10SetPos ::
  "'d IrigDataDll \<Rightarrow> 'd \<Rightarrow> u32 \<Rightarrow> int \<Rightarrow> py_error + (StatusCode \<times> 'd)" where
  "I106_Ch10SetPos D d handle offset =
    (case c_int_param offset of
       Inl e \<Rightarrow> Inl e
     | Inr w \<Rightarrow> Inr (enI106Ch10SetPos D d handle (int_as_64 w)))"

definition I106_Ch10GetPos ::
  "'d IrigDataDll \<Rightarrow> 'd \<Rightarrow> u32 \<Rightarrow> (StatusCode \<times> u64) \<times> 'd" where
  "I106_Ch10GetPos D d handle =
    (case enI106Ch10GetPos D d handle 0 of
       (ret_status, offset, d') \<Rightarrow> ((ret_status, offset), d'))"

subsection \<open>The IO class\<close>

text \<open>
  A string buffer made by \<^verbatim>\<open>ctypes.create_string_buffer(n)\<close>: a new object (\<open>ident\<close>
  tells the objects apart) holding \<open>n\<close> zero bytes. Its \<^verbatim>\<open>_length_\<close> (\<open>buf_length\<close>) is
  the number of bytes of its memory and never changes; the library writes the memory
  through a pointer (\<open>write_buffer\<close>, which keeps the bytes behind those written and
  nothing beyond the end of the memory).
\<close>

record string_buffer =
  ident :: nat
  raw :: "u8 list"

definition buf_length :: "string_buffer \<Rightarrow> nat" where
  "buf_length b = length (raw b)"

definition create_string_buffer :: "nat \<Rightarrow> nat \<Rightarrow> string_buffer" where
  "create_string_buffer i n = \<lparr>ident = i, raw = replicate n 0\<rparr>"

definition write_buffer :: "string_buffer \<Rightarrow> u8 list \<Rightarrow> string_buffer" where
  "write_buffer b written =
    b\<lparr>raw := take (length (raw b)) (written @ drop (length written) (raw b))\<rparr>"

text \<open>
  The state an \<^verbatim>\<open>IO\<close> object lives in: its three attributes, the memory of the
  \<^verbatim>\<open>Header\<close> objects by reference (the attribute \<^verbatim>\<open>Header\<close> holds a reference, and so
  does every value the iterator yields), and the state of the library. Two more
  components belong to the interpreter: the identity the next string buffer gets, and
  the size of the largest buffer it can allocate (\<^verbatim>\<open>create_string_buffer\<close> raises
  \<^verbatim>\<open>MemoryError\<close> beyond it).
\<close>

record 'd IO =
  Handle :: u32
  Header :: nat
  Buffer :: string_buffer
  heap :: "nat \<Rightarrow> Header"
  dll :: 'd
  next_id :: nat
  memory :: nat

text \<open>
  \<^verbatim>\<open>__init__\<close>: the new \<^verbatim>\<open>Header()\<close> is put at a reference \<open>r\<close> of the heap, the empty
  buffer is the object 0.
\<close>

definition IO_init :: "(nat \<Rightarrow> Header) \<Rightarrow> nat \<Rightarrow> nat \<Rightarrow> 'd \<Rightarrow> 'd IO" where
  "IO_init hp r mem d =
    \<lparr>Handle = - 1, Header = r, Buffer = create_string_buffer 0 0,
     heap = hp(r := Header_new), dll = d, next_id = 1, memory = mem\<rparr>"

text \<open>
  A method that can raise returns the exception or its result, and the state it leaves
  in both cases.
\<close>

definition IO_open ::
  "'d IrigDataDll \<Rightarrow> 'd IO \<Rightarrow> nat list \<Rightarrow> int \<Rightarrow> (py_error + StatusCode) \<times> 'd IO" where
  "IO_open D self Filename FileMode =
    (case I106_Ch10Open D (dll self) Filename FileMode of
       Inl e \<Rightarrow> (Inl e, self)
     | Inr ((RetStatus, h), d') \<Rightarrow> (Inr RetStatus, self\<lparr>Handle := h, dll := d'\<rparr>))"

definition IO_close :: "'d IrigDataDll \<Rightarrow> 'd IO \<Rightarrow> StatusCode \<times> 'd IO" where
  "IO_close D self =
    (case I106_Ch10Close D (dll self) (Handle self) of
       (RetStatus, d') \<Rightarrow> (RetStatus, self\<lparr>dll := d'\<rparr>))"

definition IO_read_next_header :: "'d IrigDataDll \<Rightarrow> 'd IO \<Rightarrow> StatusCode \<times> 'd IO" where
  "IO_read_next_header D self =
    (case I106_Ch10ReadNextHeader D (dll self) (Handle self) (heap self (Header self)) of
       (RetStatus, h', d') \<Rightarrow>
         (RetStatus, self\<lparr>heap := (heap self)(Header self := h'), dll := d'\<rparr>))"

definition IO_read_prev_header :: "'d IrigDataDll \<Rightarrow> 'd IO \<Rightarrow> StatusCode \<times> 'd IO" where
  "IO_read_prev_header D self =
    (case I106_Ch10ReadPrevHeader D (dll self) (Handle self) (heap self (Header self)) of
       (RetStatus, h', d') \<Rightarrow>
         (RetStatus, self\<lparr>heap := (heap self)(Header self := h'), dll := d'\<rparr>))"

text \<open>
  \<^verbatim>\<open>read_data\<close>. When \<^verbatim>\<open>create_string_buffer\<close> raises, the attribute \<^verbatim>\<open>Buffer\<close> is not
  assigned; when the call of the library raises, it has been.
\<close>

definition IO_read_data :: "'d IrigDataDll \<Rightarrow> 'd IO \<Rightarrow> (py_error + StatusCode) \<times> 'd IO" where
  "IO_read_data D self =
    (let n = unat (PacketLen (heap self (Header self))) in
     if n > buf_length (Buffer self) \<and> memory self < n
     then (Inl MemoryError, self)
     else
       (let self1 =
          (if n > buf_length (Buffer self)
           then self\<lparr>Buffer := create_string_buffer (next_id self) n,
                      next_id := Suc (next_id self)\<rparr>
           else self)
        in case I106_Ch10ReadData D (dll self1) (Handle self1)
                  (int (buf_length (Buffer self1))) (raw (Buffer self1)) of
             Inl e \<Rightarrow> (Inl e, self1)
           | Inr (RetStatus, written, d') \<Rightarrow>
               (Inr RetStatus,
                self1\<lparr>Buffer := write_buffer (Buffer self1) written, dll := d'\<rparr>)))"

text \<open>
  The generator \<^verbatim>\<open>packet_headers\<close>. A run of it to exhaustion (\<^verbatim>\<open>list(io.packet_headers(ch_ids))\<close>)
  is described by what it yields, the last status it read, how it ends, and the state it
  leaves. Every \<^verbatim>\<open>yield self.Header\<close> hands out the reference held by the attribute; it
  is recorded with the heap of that moment, in which the consumer's loop body reads the
  fields (\<open>seen\<close>). The generator has no \<^verbatim>\<open>raise\<close>: it ends by running off its
  \<^verbatim>\<open>while\<close> loop. The loop runs as long as the library answers \<^verbatim>\<open>OK\<close>, so the model
  counts the tests of the loop condition against a bound and is \<open>None\<close> when the bound
  is used up.
\<close>

datatype ending = StopIteration | Raises py_error

record 'd iteration =
  yielded :: "(nat \<times> (nat \<Rightarrow> Header)) list"
  last_status :: StatusCode
  ends :: ending
  leaves :: "'d IO"

definition seen :: "nat \<times> (nat \<Rightarrow> Header) \<Rightarrow> Header" where
  "seen y = snd y (fst y)"

definition passes :: "int list \<Rightarrow> Header \<Rightarrow> bool" where
  "passes ch_ids h = (length ch_ids = 0 \<or> uint (ChID h) \<in> set ch_ids)"

fun packet_headers_while ::
  "nat \<Rightarrow> 'd IrigDataDll \<Rightarrow> int list \<Rightarrow> StatusCode \<Rightarrow> 'd IO \<Rightarrow> 'd iteration option" where
  "packet_headers_while 0 D ch_ids RetStatus self = None"
| "packet_headers_while (Suc n) D ch_ids RetStatus self =
    (if RetStatus = OK then
       (let out = (if passes ch_ids (heap self (Header self))
                   then [(Header self, heap self)] else [])
        in case IO_read_next_header D self of
             (RetStatus', self') \<Rightarrow>
               map_option (\<lambda>r. r\<lparr>yielded := out @ yielded r\<rparr>)
                 (packet_headers_while n D ch_ids RetStatus' self'))
     else Some \<lparr>yielded = [], last_status = RetStatus, ends = StopIteration, leaves = self\<rparr>)"

definition IO_packet_headers ::
  "nat \<Rightarrow> 'd IrigDataDll \<Rightarrow> 'd IO \<Rightarrow> int list \<Rightarrow> 'd iteration option" where
  "IO_packet_headers n D self ch_ids =
    (case IO_read_next_header D self of
       (RetStatus, self') \<Rightarrow> packet_headers_while n D ch_ids RetStatus self')"

definition IO_first :: "'d IrigDataDll \<Rightarrow> 'd IO \<Rightarrow> StatusCode \<times> 'd IO" where
  "IO_first D self =
    (case I106_Ch10FirstMsg D (dll self) (Handle self) of
       (ret_status, d') \<Rightarrow> (ret_status, self\<lparr>dll := d'\<rparr>))"

definition IO_last :: "'d IrigDataDll \<Rightarrow> 'd IO \<Rightarrow> StatusCode \<times> 'd IO" where
  "IO_last D self =
    (case I106_Ch10LastMsg D (dll self) (Handle self) of
       (ret_status, d') \<Rightarrow> (ret_status, self\<lparr>dll := d'\<rparr>))"

definition IO_set_pos ::
  "'d IrigDataDll \<Rightarrow> 'd IO \<Rightarrow> int \<Rightarrow> (py_error + StatusCode) \<times> 'd IO" where
  "IO_set_pos D self offset =
    (case I106_Ch10SetPos D (dll self) (Handle self) offset of
       Inl e \<Rightarrow> (Inl e, self)
     | Inr (ret_status, d') \<Rightarrow> (Inr ret_status, self\<lparr>dll := d'\<rparr>))"

definition IO_get_pos :: "'d IrigDataDll \<Rightarrow> 'd IO \<Rightarrow> (StatusCode \<times> u64) \<times> 'd IO" where
  "IO_get_pos D self =
    (case I106_Ch10GetPos D (dll self) (Handle self) of
       ((ret_status, offset), d') \<Rightarrow> ((ret_status, offset), self\<lparr>dll := d'\<rparr>))"

subsection \<open>Using an IO object\<close>

text \<open>
  Reading the headers by hand, as the module's own test code did before it used the
  iterator: call \<^verbatim>\<open>read_next_header\<close> until the status is not \<^verbatim>\<open>OK\<close>, looking at
  \<^verbatim>\<open>PktIO.Header\<close> after each successful call. The result is the headers seen, the status
  that ended the loop and the state left; the bound counts the calls.
\<close>

fun manual_headers ::
  "nat \<Rightarrow> 'd IrigDataDll \<Rightarrow> 'd IO \<Rightarrow> (Header list \<times> StatusCode \<times> 'd IO) option" where
  "manual_headers 0 D self = None"
| "manual_headers (Suc n) D self =
    (case IO_read_next_header D self of
       (RetStatus, self') \<Rightarrow>
         if RetStatus \<noteq> OK then Some ([], RetStatus, self')
         else map_option (\<lambda>(hs, st, s). (heap self' (Header self') # hs, st, s))
                (manual_headers n D self'))"

text \<open>
  The nine core operations as calls on an object, each returning what the method
  returns or the exception it raises, and the state it leaves. The arguments have the
  types the methods are written for: a string for the file name, integers for the file
  mode and the offset.
\<close>

datatype op =
  Open "nat list" int | Close | ReadNextHeader | ReadPrevHeader | ReadData | First | Last
  | SetPos int | GetPos

datatype returned = Status StatusCode | StatusOffset StatusCode u64

fun call :: "'d IrigDataDll \<Rightarrow> op \<Rightarrow> 'd IO \<Rightarrow> (py_error + returned) \<times> 'd IO" where
  "call D (Open Filename FileMode) self =
    (case IO_open D self Filename FileMode of (r, self') \<Rightarrow> (map_sum id Status r, self'))"
| "call D Close self = (case IO_close D self of (st, self') \<Rightarrow> (Inr (Status st), self'))"
| "call D ReadNextHeader self =
    (case IO_read_next_header D self of (st, self') \<Rightarrow> (Inr (Status st), self'))"
| "call D ReadPrevHeader self =
    (case IO_read_prev_header D self of (st, self') \<Rightarrow> (Inr (Status st), self'))"
| "call D ReadData self =
    (case IO_read_data D self of (r, self') \<Rightarrow> (map_sum id Status r, self'))"
| "call D First self = (case IO_first D self of (st, self') \<Rightarrow> (Inr (Status st), self'))"
| "call D Last self = (case IO_last D self of (st, self') \<Rightarrow> (Inr (Status st), self'))"
| "call D (SetPos offset) self =
    (case IO_set_pos D self offset of (r, self') \<Rightarrow> (map_sum id Status r, self'))"
| "call D GetPos self =
    (case IO_get_pos D self of
       ((st, offset), self') \<Rightarrow> (Inr (StatusOffset st offset), self'))"

text \<open>The state after a call, and after a sequence of calls.\<close>

definition after_call :: "'d IrigDataDll \<Rightarrow> op \<Rightarrow> 'd IO \<Rightarrow> 'd IO" where
  "after_call D c self = snd (call D c self)"

fun run :: "'d IrigDataDll \<Rightarrow> op list \<Rightarrow> 'd IO \<Rightarrow> 'd IO" where
  "run D [] self = self"
| "run D (c # cs) self = run D cs (after_call D c self)"

text \<open>
  Two sizes at a \<^verbatim>\<open>read_data\<close>. The size the payload requires of the buffer is the
  payload length \<^verbatim>\<open>self.Header.DataLen\<close> (\<open>required\<close>); the size the method tests and
  allocates is \<^verbatim>\<open>self.Header.PacketLen\<close> (\<open>requested\<close>). The header is consistent
  when the packet is not shorter than its payload. \<open>reads\<close> are the states in which the
  \<^verbatim>\<open>read_data\<close> calls of a sequence of calls are made, and \<open>largest_requested\<close> is
  the largest size requested by those of them whose allocation can succeed.
\<close>

definition required :: "'d IO \<Rightarrow> nat" where
  "required self = unat (DataLen (heap self (Header self)))"

definition requested :: "'d IO \<Rightarrow> nat" where
  "requested self = unat (PacketLen (heap self (Header self)))"

definition consistent :: "'d IO \<Rightarrow> bool" where
  "consistent self = (required self \<le> requested self)"

fun reads :: "'d IrigDataDll \<Rightarrow> op list \<Rightarrow> 'd IO \<Rightarrow> 'd IO list" where
  "reads D [] self = []"
| "reads D (c # cs) self =
    (if c = ReadData then [self] else []) @ reads D cs (after_call D c self)"

fun largest_requested :: "'d IrigDataDll \<Rightarrow> op list \<Rightarrow> 'd IO \<Rightarrow> nat" where
  "largest_requested D [] self = 0"
| "largest_requested D (c # cs) self =
    max (if c = ReadData \<and> requested self \<le> memory self then requested self else 0)
        (largest_requested D cs (after_call D c self))"

subsection \<open>FileMode\<close>

abbreviation (input) CLOSED :: int where "CLOSED \<equiv> 0"
abbreviation (input) READ :: int where "READ \<equiv> 1"
abbreviation (input) OVERWRITE :: int where "OVERWRITE \<equiv> 2"
abbreviation (input) APPEND :: int where "APPEND \<equiv> 3"
abbreviation (input) READ_IN_ORDER :: int where "READ_IN_ORDER \<equiv> 4"
abbreviation (input) READ_NET_STREAM :: int where "READ_NET_STREAM \<equiv> 5"

section \<open>The native library, as the specification describes it\<close>

text \<open>
  Modelled from the spec: the native library behind \<^verbatim>\<open>IrigDataDll\<close> (its C sources are
  not among the sources), after sections 4.1 (header decoding), 4.3 (checksum) and 4.4
  (PacketStream) of the specification. It is used where a statement is about what the
  library does, and as the concrete library of the examples.
\<close>

text \<open>Modelled from the spec: the sync pattern \<open>0xEB25\<close> (section 6).\<close>

definition sync_pattern :: u16 where
  "sync_pattern = 0xEB25"

text \<open>
  Modelled from the spec: \<open>sum16\<close> (4.3) sums the buffer as consecutive little-endian
  16-bit words, an odd trailing byte zero-extended, truncating to 16 bits.
\<close>

fun sum16 :: "u8 list \<Rightarrow> u16" where
  "sum16 [] = 0"
| "sum16 [b] = ucast b"
| "sum16 (lo # hi # bs) = (ucast lo + push_bit 8 (ucast hi)) + sum16 bs"

text \<open>
  Modelled from the spec: the derived accessors of 4.1, \<open>hasSecondaryHeader\<close> from bit 7
  of \<open>PacketFlags\<close> and \<open>payloadLength\<close>, which is \<open>DataLen\<close>.
\<close>

definition hasSecondaryHeader :: "Header \<Rightarrow> bool" where
  "hasSecondaryHeader h = (PacketFlags h AND 0x80 \<noteq> 0)"

definition payloadLength :: "Header \<Rightarrow> u32" where
  "payloadLength h = DataLen h"

text \<open>
  Modelled from the spec: \<open>decode\<close> (4.1) fails with \<open>FormatError\<close> when fewer than 24
  bytes are available, when \<open>Sync\<close> is not the fixed pattern, or when a checksum fails;
  the 12 bytes of the secondary header are taken only when the flag bit is set. The
  result is the header as read: 24 or 36 bytes.
\<close>

definition decode :: "u8 list \<Rightarrow> StatusCode + Header" where
  "decode bs =
    (if length bs < 24 then Inl FormatError
     else if Sync (take 24 bs) \<noteq> sync_pattern then Inl FormatError
     else if sum16 (take 22 bs) \<noteq> Checksum (take 24 bs) then Inl FormatError
     else if \<not> hasSecondaryHeader (take 24 bs) then Inr (take 24 bs)
     else if length bs < 36 then Inl FormatError
     else if sum16 (take 10 (drop 24 bs)) \<noteq> SecChecksum (take 36 bs) then Inl FormatError
     else Inr (take 36 bs))"

text \<open>
  Modelled from the spec: the state of a PacketStream (4.4): the byte source, the cursor,
  the header decoded last with the offset it was decoded at, and the offsets of the
  packets read going forward, most recent first (the offset history of strategy (a) for
  backward traversal). The library holds the files it can open and at most one stream;
  no stream is the state Closed, a stream is the state Positioned.
\<close>

record stored_file =
  readable :: bool
  content :: "u8 list"

record PacketStream =
  source :: "u8 list"
  cursor :: u64
  currentHeader :: "(u64 \<times> Header) option"
  history :: "u64 list"

record native =
  files :: "(u8 list \<times> stored_file) list"
  stream :: "PacketStream option"

definition new_stream :: "u8 list \<Rightarrow> u64 \<Rightarrow> PacketStream" where
  "new_stream src pos = \<lparr>source = src, cursor = pos, currentHeader = None, history = []\<rparr>"

text \<open>
  Modelled from the spec: \<open>open\<close>. The read modes fail with \<open>NotFound\<close> or
  \<open>AccessDenied\<close>; the write modes start a stream at 0, or at the end for Append. The spec
  names no status for a mode outside its vocabulary; no stream is opened then.
\<close>

definition spec_Open ::
  "native \<Rightarrow> u32 \<Rightarrow> u8 list \<Rightarrow> c_int \<Rightarrow> StatusCode \<times> u32 \<times> native" where
  "spec_Open d handle path mode =
    (if sint mode = READ \<or> sint mode = READ_IN_ORDER \<or> sint mode = READ_NET_STREAM then
       (case map_of (files d) path of
          None \<Rightarrow> (NotFound, handle, d)
        | Some f \<Rightarrow>
            if readable f then (OK, handle, d\<lparr>stream := Some (new_stream (content f) 0)\<rparr>)
            else (AccessDenied, handle, d))
     else if sint mode = OVERWRITE then (OK, handle, d\<lparr>stream := Some (new_stream [] 0)\<rparr>)
     else if sint mode = APPEND then
       (case map_of (files d) path of
          None \<Rightarrow> (OK, handle, d\<lparr>stream := Some (new_stream [] 0)\<rparr>)
        | Some f \<Rightarrow>
            (OK, handle,
             d\<lparr>stream := Some (new_stream (content f) (of_nat (length (content f))))\<rparr>))
     else (InvalidHandle, handle, d))"

text \<open>Modelled from the spec: \<open>close\<close> is idempotent and returns \<open>OK\<close>.\<close>

definition spec_Close :: "native \<Rightarrow> u32 \<Rightarrow> StatusCode \<times> native" where
  "spec_Close d handle = (OK, d\<lparr>stream := None\<rparr>)"

text \<open>
  Modelled from the spec: \<open>readNextHeader\<close> decodes at the cursor; on success it advances
  the cursor by \<open>PacketLen\<close> and stores the header; \<open>EndOfFile\<close> when no bytes remain,
  \<open>FormatError\<close> with the cursor unchanged when the decoding fails. The decoded bytes
  are written over the start of the caller's structure.
\<close>

definition spec_ReadNextHeader ::
  "native \<Rightarrow> u32 \<Rightarrow> Header \<Rightarrow> StatusCode \<times> Header \<times> native" where
  "spec_ReadNextHeader d handle hdr =
    (case stream d of
       None \<Rightarrow> (InvalidHandle, hdr, d)
     | Some ps \<Rightarrow>
         if length (source ps) \<le> unat (cursor ps) then (EndOfFile, hdr, d)
         else
           (case decode (drop (unat (cursor ps)) (source ps)) of
              Inl e \<Rightarrow> (e, hdr, d)
            | Inr h \<Rightarrow>
                (OK, h @ drop (length h) hdr,
                 d\<lparr>stream := Some (ps\<lparr>cursor := cursor ps + ucast (PacketLen h),
                                       currentHeader := Some (cursor ps, h),
                                       history := cursor ps # history ps\<rparr>)\<rparr>)))"

text \<open>
  Modelled from the spec: \<open>readPrevHeader\<close>, by the offset history: it decodes the packet
  before the one last read, and returns \<open>BeginningOfFile\<close> when there is none.
\<close>

definition spec_ReadPrevHeader ::
  "native \<Rightarrow> u32 \<Rightarrow> Header \<Rightarrow> StatusCode \<times> Header \<times> native" where
  "spec_ReadPrevHeader d handle hdr =
    (case stream d of
       None \<Rightarrow> (InvalidHandle, hdr, d)
     | Some ps \<Rightarrow>
         (case history ps of
            cur # prev # rest \<Rightarrow>
              (case decode (drop (unat prev) (source ps)) of
                 Inl e \<Rightarrow> (e, hdr, d)
               | Inr h \<Rightarrow>
                   (OK, h @ drop (length h) hdr,
                    d\<lparr>stream := Some (ps\<lparr>cursor := prev + ucast (PacketLen h),
                                          currentHeader := Some (prev, h),
                                          history := prev # rest\<rparr>)\<rparr>))
          | _ \<Rightarrow> (BeginningOfFile, hdr, d)))"

text \<open>
  Modelled from the spec: \<open>readData\<close> reads exactly \<open>payloadLength\<close> bytes, starting
  right after the header (24 or 36 bytes), into the start of the buffer, and fails with
  \<open>ShortRead\<close> if fewer bytes are available, writing nothing. The spec's stream sizes
  its own buffer and says nothing of a size argument, nor of a read before any header was
  decoded (which is given \<open>FormatError\<close> here).
\<close>

definition spec_ReadData ::
  "native \<Rightarrow> u32 \<Rightarrow> c_int \<Rightarrow> u8 list \<Rightarrow> StatusCode \<times> u8 list \<times> native" where
  "spec_ReadData d handle buff_size data_buff =
    (case stream d of
       None \<Rightarrow> (InvalidHandle, [], d)
     | Some ps \<Rightarrow>
         (case currentHeader ps of
            None \<Rightarrow> (FormatError, [], d)
          | Some (at, h) \<Rightarrow>
              (let n = unat (payloadLength h);
                   avail = drop (unat at + length h) (source ps)
               in if length avail < n then (ShortRead, [], d)
                  else (OK, take n avail, d))))"

text \<open>
  Modelled from the spec: \<open>first\<close> and \<open>last\<close> put the cursor on the first and on the
  last packet. The packets of a source are found by following \<open>PacketLen\<close> from offset 0
  (the cached index); the spec names no status for a source without a packet, which gets
  the status reading at offset 0 would give.
\<close>

fun packet_offsets :: "nat \<Rightarrow> u8 list \<Rightarrow> nat \<Rightarrow> nat list" where
  "packet_offsets 0 src pos = []"
| "packet_offsets (Suc n) src pos =
    (if length src \<le> pos then []
     else
       (case decode (drop pos src) of
          Inl e \<Rightarrow> []
        | Inr h \<Rightarrow>
            pos # (if PacketLen h = 0 then []
                   else packet_offsets n src (pos + unat (PacketLen h)))))"

definition spec_FirstMsg :: "native \<Rightarrow> u32 \<Rightarrow> StatusCode \<times> native" where
  "spec_FirstMsg d handle =
    (case stream d of
       None \<Rightarrow> (InvalidHandle, d)
     | Some ps \<Rightarrow> (OK, d\<lparr>stream := Some (ps\<lparr>cursor := 0, history := []\<rparr>)\<rparr>))"

definition spec_LastMsg :: "native \<Rightarrow> u32 \<Rightarrow> StatusCode \<times> native" where
  "spec_LastMsg d handle =
    (case stream d of
       None \<Rightarrow> (InvalidHandle, d)
     | Some ps \<Rightarrow>
         (case rev (packet_offsets (length (source ps)) (source ps) 0) of
            [] \<Rightarrow> (if source ps = [] then EndOfFile else FormatError, d)
          | at # earlier \<Rightarrow>
              (OK, d\<lparr>stream := Some (ps\<lparr>cursor := of_nat at,
                                         history := map of_nat earlier\<rparr>)\<rparr>)))"

text \<open>
  Modelled from the spec: \<open>setPos\<close> sets the cursor directly, without validation;
  \<open>getPos\<close> returns the cursor, always with \<open>OK\<close> while the stream is open. Outside
  Positioned both fail with \<open>InvalidHandle\<close>.
\<close>

definition spec_SetPos :: "native \<Rightarrow> u32 \<Rightarrow> u64 \<Rightarrow> StatusCode \<times> native" where
  "spec_SetPos d handle offset =
    (case stream d of
       None \<Rightarrow> (InvalidHandle, d)
     | Some ps \<Rightarrow>
         (OK, d\<lparr>stream := Some (ps\<lparr>cursor := offset,
                                    history := filter (\<lambda>at. at < offset) (history ps)\<rparr>)\<rparr>))"

definition spec_GetPos :: "native \<Rightarrow> u32 \<Rightarrow> u64 \<Rightarrow> StatusCode \<times> u64 \<times> native" where
  "spec_GetPos d handle offset =
    (case stream d of
       None \<Rightarrow> (InvalidHandle, offset, d)
     | Some ps \<Rightarrow> (OK, cursor ps, d))"

definition spec_dll :: "native IrigDataDll" where
  "spec_dll =
    \<lparr>enI106Ch10Open = spec_Open,
     enI106Ch10Close = spec_Close,
     enI106Ch10ReadNextHeader = spec_ReadNextHeader,
     enI106Ch10ReadPrevHeader = spec_ReadPrevHeader,
     enI106Ch10ReadData = spec_ReadData,
     enI106Ch10FirstMsg = spec_FirstMsg,
     enI106Ch10LastMsg = spec_LastMsg,
     enI106Ch10SetPos = spec_SetPos,
     enI106Ch10GetPos = spec_GetPos\<rparr>"

section \<open>Examples\<close>

text \<open>
  A packet of 24 bytes for the examples: the sync pattern, channel \<open>c\<close>, \<open>PacketLen\<close> 24,
  \<open>DataLen\<close> 0, and the checksum bytes \<open>ck\<close> and \<open>0xEB\<close>; the checksum is right when
  \<open>ck\<close> is \<open>0x3D + c\<close>.
\<close>

definition example_packet :: "u8 \<Rightarrow> u8 \<Rightarrow> u8 list" where
  "example_packet c ck =
    [0x25, 0xEB, c, 0, 24, 0, 0, 0, 0, 0, 0, 0, 0, 0, 0, 0, 0, 0, 0, 0, 0, 0, ck, 0xEB]"

text \<open>A recording of five packets on the channels 1, 5, 5, 2, 5.\<close>

definition recording5 :: "u8 list" where
  "recording5 = example_packet 1 0x3E @ example_packet 5 0x42 @ example_packet 5 0x42 @
     example_packet 2 0x3F @ example_packet 5 0x42"

text \<open>A packet on channel 3 with one checksum byte corrupted (\<open>0x41\<close> for \<open>0x40\<close>).\<close>

definition corrupt_recording :: "u8 list" where
  "corrupt_recording = example_packet 3 0x41"

text \<open>
  A packet on channel 3 with four bytes of payload: \<open>PacketLen\<close> 28, \<open>DataLen\<close> 4.
\<close>

definition payload_recording :: "u8 list" where
  "payload_recording =
    [0x25, 0xEB, 3, 0, 28, 0, 0, 0, 4, 0, 0, 0, 0, 0, 0, 0, 0, 0, 0, 0, 0, 0, 0x48, 0xEB,
     0xDE, 0xAD, 0xBE, 0xEF]"

text \<open>
  An \<^verbatim>\<open>IO\<close> object whose library holds a stream on \<open>src\<close> at \<open>pos\<close>; \<open>hdr\<close> is the
  memory of its \<^verbatim>\<open>Header\<close>, which is the object at reference 0. Its buffer is the
  empty one it was made with, and the interpreter can allocate \<open>2\<^sup>3\<^sup>2\<close> bytes.
\<close>

definition reading ::
  "u8 list \<Rightarrow> u64 \<Rightarrow> (u64 \<times> Header) option \<Rightarrow> u64 list \<Rightarrow> Header \<Rightarrow> native IO" where
  "reading src pos cur hist hdr =
    \<lparr>Handle = 0, Header = 0, Buffer = create_string_buffer 0 0,
     heap = (\<lambda>r. [])(0 := hdr),
     dll = \<lparr>files = [], stream = Some \<lparr>source = src, cursor = pos, currentHeader = cur,
                                       history = hist\<rparr>\<rparr>,
     next_id = 1, memory = 4294967296\<rparr>"

text \<open>
  The object after \<^verbatim>\<open>read_next_header\<close> has read the header of the packet with payload
  through a stream opened on \<open>payload_recording\<close>.
\<close>

definition after_payload_header :: "native IO" where
  "after_payload_header =
    reading payload_recording 28 (Some (0, take 24 payload_recording)) [0]
      (take 24 payload_recording @ replicate 12 0)"

text \<open>A new \<^verbatim>\<open>IO\<close> object, before any file is opened.\<close>

definition unopened :: "native IO" where
  "unopened = IO_init (\<lambda>r. []) 0 4294967296 \<lparr>files = [], stream = None\<rparr>"

section \<open>The data-type name lookup\<close>

lemma distinct_named_codes: "distinct named_codes"
  by (simp add: named_codes_def name_def)

lemma length_named_codes: "length named_codes = 30"
  by (simp add: named_codes_def name_def)

lemma Undefined_not_a_name: "''Undefined'' \<notin> snd ` set name"
  by (simp add: name_def)

lemma dict_display_None: "(dict_display kvs k = None) = (k \<notin> fst ` set kvs)"
  by (simp add: dict_display_def map_of_eq_None_iff)

lemma dict_display_Some: "dict_display kvs k = Some v \<Longrightarrow> v \<in> snd ` set kvs"
  unfolding dict_display_def by (force dest: map_of_SomeD)

lemma TypeName_Undefined_iff: "(TypeName c = ''Undefined'') = (c \<notin> set named_codes)"
proof (cases "dict_display name c")
  case None
  then have "c \<notin> fst ` set name"
    by (simp add: dict_display_None)
  with None show ?thesis
    by (simp add: TypeName_def dict_get_def named_codes_def)
next
  case (Some v)
  then have "v \<in> snd ` set name"
    by (rule dict_display_Some)
  with Undefined_not_a_name have "v \<noteq> ''Undefined''"
    by blast
  moreover from Some have "c \<in> fst ` set name"
    using dict_display_None [of name c] by simp
  ultimately show ?thesis
    using Some by (simp add: TypeName_def dict_get_def named_codes_def)
qed

lemma named_set: "{c. TypeName c \<noteq> ''Undefined''} = set named_codes"
  using TypeName_Undefined_iff by auto

lemma card_named: "card {c. TypeName c \<noteq> ''Undefined''} = 30"
  using distinct_card [OF distinct_named_codes] by (simp add: named_set length_named_codes)

text \<open>
  Claim C3, as amended. \<open>TypeName\<close> is a total function on the byte codes; the codes with
  a display name other than \<open>''Undefined''\<close> are exactly the keys of the table, which are
  30 distinct codes (not 29), and each of the remaining 226 codes gives \<open>''Undefined''\<close>.
\<close>

theorem TypeName_named_codes:
  "card {c. TypeName c \<noteq> ''Undefined''} = 30 \<and>
   card {c. TypeName c = ''Undefined''} = 226 \<and>
   (TypeName c = ''Undefined'') = (c \<notin> set named_codes)"
proof -
  have "{c. TypeName c = ''Undefined''} = UNIV - {c. TypeName c \<noteq> ''Undefined''}"
    by auto
  then have "card {c. TypeName c = ''Undefined''} = card (UNIV :: u8 set) - 30"
    using card_named by (simp add: card_Diff_subset)
  then have "card {c. TypeName c = ''Undefined''} = 226"
    by (simp add: card_word)
  with card_named TypeName_Undefined_iff show ?thesis
    by simp
qed

text \<open>
  Claim C3 as stated fails: the number of codes with a name other than \<open>''Undefined''\<close>
  is not 29.
\<close>

theorem TypeName_29_counterexample:
  "card {c. TypeName c \<noteq> ''Undefined''} \<noteq> 29"
  using card_named by simp

section \<open>The layout of the header\<close>

lemma Header_layout_eq:
  "Header_layout =
    [(''Sync'', 0), (''ChID'', 2), (''PacketLen'', 4), (''DataLen'', 8), (''HdrVer'', 12),
     (''SeqNum'', 13), (''PacketFlags'', 14), (''DataType'', 15), (''RefTime'', 16),
     (''Checksum'', 22), (''Time'', 24), (''Reserved'', 32), (''SecChecksum'', 34)]"
  by (simp add: Header_layout_def Header_fields_def Header_pack_def field_align_def align_up_def)

lemma Header_size_eq: "Header_size = 36"
  by (simp add: Header_size_def struct_size_def Header_fields_def Header_pack_def
      field_align_def align_up_def)

lemma primary_size_eq: "fields_end Header_pack 0 (take 10 Header_fields) = 24"
  by (simp add: Header_fields_def Header_pack_def field_align_def align_up_def)

lemma field_bytes_eq:
  "field_bytes ''Sync'' h = take 2 h"
  "field_bytes ''ChID'' h = take 2 (drop 2 h)"
  "field_bytes ''PacketLen'' h = take 4 (drop 4 h)"
  "field_bytes ''DataLen'' h = take 4 (drop 8 h)"
  "field_bytes ''HdrVer'' h = take 1 (drop 12 h)"
  "field_bytes ''SeqNum'' h = take 1 (drop 13 h)"
  "field_bytes ''PacketFlags'' h = take 1 (drop 14 h)"
  "field_bytes ''DataType'' h = take 1 (drop 15 h)"
  "field_bytes ''RefTime'' h = take 6 (drop 16 h)"
  "field_bytes ''Checksum'' h = take 2 (drop 22 h)"
  "field_bytes ''Time'' h = take 8 (drop 24 h)"
  "field_bytes ''Reserved'' h = take 2 (drop 32 h)"
  "field_bytes ''SecChecksum'' h = take 2 (drop 34 h)"
  by (simp_all add: field_bytes_def Header_layout_eq Header_fields_def)

lemma secondary_fields_eq:
  "Time h = [of_nat (uint_le (take 4 (drop 24 h))), of_nat (uint_le (take 4 (drop 28 h)))]"
  "Reserved h = of_nat (uint_le (take 2 (drop 32 h)))"
  "SecChecksum h = of_nat (uint_le (take 2 (drop 34 h)))"
  by (simp_all add: Time_def Reserved_def SecChecksum_def field_bytes_eq take_drop add.commute)

text \<open>
  Claim C4, as amended. With \<^verbatim>\<open>_pack_ = 1\<close> the fields of \<^verbatim>\<open>Header\<close> lie at the offsets
  0, 2, 4, 8, 12, 13, 14, 15, 16 and 22, so that the primary header takes exactly 24 bytes,
  and \<open>Time\<close>, \<open>Reserved\<close> and \<open>SecChecksum\<close> follow at 24, 32 and 34. Every
  \<^verbatim>\<open>Header\<close> has all 36 bytes, and the three secondary fields are read from the bytes 24
  to 35 of any header \<open>h\<close>, whatever its \<open>PacketFlags\<close>: the structure has no field
  that depends on bit 7. Multi-byte fields are read least significant byte first.
\<close>

theorem Header_layout_fixed:
  "Header_pack = 1 \<and>
   Header_layout =
    [(''Sync'', 0), (''ChID'', 2), (''PacketLen'', 4), (''DataLen'', 8), (''HdrVer'', 12),
     (''SeqNum'', 13), (''PacketFlags'', 14), (''DataType'', 15), (''RefTime'', 16),
     (''Checksum'', 22), (''Time'', 24), (''Reserved'', 32), (''SecChecksum'', 34)] \<and>
   fields_end Header_pack 0 (take 10 Header_fields) = 24 \<and>
   Header_size = 36 \<and>
   length Header_new = 36 \<and>
   Sync h = of_nat (uint_le (take 2 h)) \<and>
   PacketLen h = of_nat (uint_le (take 4 (drop 4 h))) \<and>
   uint_le [b0, b1, b2, b3] = unat b0 + 256 * (unat b1 + 256 * (unat b2 + 256 * unat b3)) \<and>
   Time h = [of_nat (uint_le (take 4 (drop 24 h))), of_nat (uint_le (take 4 (drop 28 h)))] \<and>
   Reserved h = of_nat (uint_le (take 2 (drop 32 h))) \<and>
   SecChecksum h = of_nat (uint_le (take 2 (drop 34 h)))"
proof -
  have "Header_pack = 1"
    by (simp add: Header_pack_def)
  moreover have "length Header_new = 36"
    by (simp add: Header_new_def Header_size_eq)
  moreover have "Sync h = of_nat (uint_le (take 2 h))"
    and "PacketLen h = of_nat (uint_le (take 4 (drop 4 h)))"
    by (simp_all add: Sync_def PacketLen_def field_bytes_eq)
  moreover have
    "uint_le [b0, b1, b2, b3] = unat b0 + 256 * (unat b1 + 256 * (unat b2 + 256 * unat b3))"
    by simp
  ultimately show ?thesis
    using Header_layout_eq primary_size_eq Header_size_eq secondary_fields_eq [of h]
    by blast
qed

text \<open>
  The layout at a header read from a packet without secondary header, in a structure
  whose last 12 bytes hold 1, 2, 3 and 4.
\<close>

theorem Header_layout_fixed_witness:
  "Sync (example_packet 1 0x3E @ [1, 0, 0, 0, 2, 0, 0, 0, 3, 0, 4, 0]) = 0xEB25 \<and>
   PacketLen (example_packet 1 0x3E @ [1, 0, 0, 0, 2, 0, 0, 0, 3, 0, 4, 0]) = 24 \<and>
   Reserved (example_packet 1 0x3E @ [1, 0, 0, 0, 2, 0, 0, 0, 3, 0, 4, 0]) = 3"
  using Header_layout_fixed [of "example_packet 1 0x3E @ [1, 0, 0, 0, 2, 0, 0, 0, 3, 0, 4, 0]"]
  by (simp add: example_packet_def)

text \<open>
  Claim C4 as stated fails: a header with bit 7 of \<open>PacketFlags\<close> clear still has the 12
  bytes of the secondary header, and its fields \<open>Time\<close>, \<open>Reserved\<close> and
  \<open>SecChecksum\<close> are read from them.
\<close>

theorem secondary_header_unconditional_counterexample:
  "PacketFlags (example_packet 1 0x3E @ [1, 0, 0, 0, 2, 0, 0, 0, 3, 0, 4, 0]) AND 0x80 = 0 \<and>
   length (example_packet 1 0x3E @ [1, 0, 0, 0, 2, 0, 0, 0, 3, 0, 4, 0]) = Header_size \<and>
   Time (example_packet 1 0x3E @ [1, 0, 0, 0, 2, 0, 0, 0, 3, 0, 4, 0]) = [1, 2] \<and>
   Reserved (example_packet 1 0x3E @ [1, 0, 0, 0, 2, 0, 0, 0, 3, 0, 4, 0]) = 3 \<and>
   SecChecksum (example_packet 1 0x3E @ [1, 0, 0, 0, 2, 0, 0, 0, 3, 0, 4, 0]) = 4"
  by (simp add: example_packet_def PacketFlags_def field_bytes_eq secondary_fields_eq
      Header_size_eq)

section \<open>The methods of IO\<close>

lemma read_next_header_frame:
  "IO_read_next_header D self = (st, self') \<Longrightarrow>
     Header self' = Header self \<and> Buffer self' = Buffer self \<and> Handle self' = Handle self"
  by (auto simp: IO_read_next_header_def split: prod.splits)

lemma buf_length_create [simp]: "buf_length (create_string_buffer i n) = n"
  by (simp add: buf_length_def create_string_buffer_def)

lemma ident_create [simp]: "ident (create_string_buffer i n) = i"
  by (simp add: create_string_buffer_def)

lemma raw_create [simp]: "raw (create_string_buffer i n) = replicate n 0"
  by (simp add: create_string_buffer_def)

lemma buf_length_write [simp]: "buf_length (write_buffer b w) = buf_length b"
  by (simp add: buf_length_def write_buffer_def)

lemma ident_write [simp]: "ident (write_buffer b w) = ident b"
  by (simp add: write_buffer_def)


text \<open>
  What \<^verbatim>\<open>read_data\<close> does to the buffer object: it is replaced by a new object of
  \<open>PacketLen\<close> bytes when its capacity is smaller and the allocation succeeds, and is
  the same object otherwise.
\<close>

lemma read_data_frame:
  "ident (Buffer (snd (IO_read_data D self))) =
     (if buf_length (Buffer self) < requested self \<and> requested self \<le> memory self
      then next_id self else ident (Buffer self))"
  "buf_length (Buffer (snd (IO_read_data D self))) =
     (if buf_length (Buffer self) < requested self \<and> requested self \<le> memory self
      then requested self else buf_length (Buffer self))"
  "next_id (snd (IO_read_data D self)) =
     (if buf_length (Buffer self) < requested self \<and> requested self \<le> memory self
      then Suc (next_id self) else next_id self)"
  "memory (snd (IO_read_data D self)) = memory self"
  by (auto simp: IO_read_data_def requested_def Let_def split: sum.splits prod.splits)

lemma after_call_other:
  "c \<noteq> ReadData \<Longrightarrow>
     Buffer (after_call D c self) = Buffer self \<and>
     next_id (after_call D c self) = next_id self \<and>
     memory (after_call D c self) = memory self"
  by (cases c)
     (simp_all add: after_call_def IO_open_def IO_close_def IO_read_next_header_def
       IO_read_prev_header_def IO_first_def IO_last_def IO_set_pos_def IO_get_pos_def
       split: prod.splits sum.splits)

lemma after_call_ReadData: "after_call D ReadData self = snd (IO_read_data D self)"
  by (simp add: after_call_def split: prod.splits)

lemma after_call_length:
  "buf_length (Buffer (after_call D c self)) =
     (if c = ReadData \<and> buf_length (Buffer self) < requested self \<and>
         requested self \<le> memory self
      then requested self else buf_length (Buffer self))"
  by (cases "c = ReadData") (simp_all add: after_call_ReadData read_data_frame after_call_other)

lemma after_call_ident:
  "ident (Buffer (after_call D c self)) =
     (if c = ReadData \<and> buf_length (Buffer self) < requested self \<and>
         requested self \<le> memory self
      then next_id self else ident (Buffer self))"
  by (cases "c = ReadData") (simp_all add: after_call_ReadData read_data_frame after_call_other)

lemma after_call_next_id:
  "next_id (after_call D c self) =
     (if c = ReadData \<and> buf_length (Buffer self) < requested self \<and>
         requested self \<le> memory self
      then Suc (next_id self) else next_id self)"
  by (cases "c = ReadData") (simp_all add: after_call_ReadData read_data_frame after_call_other)

lemma after_call_mono: "buf_length (Buffer self) \<le> buf_length (Buffer (after_call D c self))"
  by (simp add: after_call_length)

lemma run_mono: "buf_length (Buffer self) \<le> buf_length (Buffer (run D cs self))"
proof (induction cs arbitrary: self)
  case Nil
  then show ?case by simp
next
  case (Cons c cs)
  from after_call_mono [of self D c] Cons.IH [of "after_call D c self"] show ?case
    by simp
qed

lemma run_length:
  "buf_length (Buffer (run D cs self)) =
     max (buf_length (Buffer self)) (largest_requested D cs self)"
proof (induction cs arbitrary: self)
  case Nil
  then show ?case by simp
next
  case (Cons c cs)
  have "buf_length (Buffer (after_call D c self)) =
      max (buf_length (Buffer self))
        (if c = ReadData \<and> requested self \<le> memory self then requested self else 0)"
    by (simp add: after_call_length max_def)
  with Cons.IH [of "after_call D c self"] show ?case
    by (simp add: max.assoc)
qed

lemma run_requested:
  "s \<in> set (reads D cs self) \<Longrightarrow> requested s \<le> memory s \<Longrightarrow>
     requested s \<le> buf_length (Buffer (run D cs self))"
proof (induction cs arbitrary: self)
  case Nil
  then show ?case by simp
next
  case (Cons c cs)
  show ?case
  proof (cases "c = ReadData \<and> s = self")
    case True
    with Cons.prems(2) have "requested s \<le> buf_length (Buffer (after_call D c self))"
      by (simp add: after_call_length)
    also have "\<dots> \<le> buf_length (Buffer (run D cs (after_call D c self)))"
      by (rule run_mono)
    finally show ?thesis by simp
  next
    case False
    with Cons.prems(1) have "s \<in> set (reads D cs (after_call D c self))"
      by (auto split: if_splits)
    from Cons.IH [OF this Cons.prems(2)] show ?thesis by simp
  qed
qed

lemma packet_headers_while_Buffer:
  "packet_headers_while n D ch st self = Some r \<Longrightarrow> Buffer (leaves r) = Buffer self"
proof (induction n arbitrary: st self r)
  case 0
  then show ?case by simp
next
  case (Suc n)
  show ?case
  proof (cases "st = OK")
    case False
    with Suc.prems show ?thesis by auto
  next
    case True
    obtain st' self' where rd: "IO_read_next_header D self = (st', self')"
      by (cases "IO_read_next_header D self")
    from Suc.prems True rd obtain r' where
      r': "packet_headers_while n D ch st' self' = Some r'" and l: "leaves r = leaves r'"
      by (auto simp: Let_def)
    from Suc.IH [OF r'] read_next_header_frame [OF rd] l show ?thesis
      by simp
  qed
qed

lemma packet_headers_Buffer:
  "IO_packet_headers n D self ch = Some r \<Longrightarrow> Buffer (leaves r) = Buffer self"
proof -
  assume a: "IO_packet_headers n D self ch = Some r"
  obtain st' self' where rd: "IO_read_next_header D self = (st', self')"
    by (cases "IO_read_next_header D self")
  with a have "packet_headers_while n D ch st' self' = Some r"
    by (simp add: IO_packet_headers_def)
  from packet_headers_while_Buffer [OF this] read_next_header_frame [OF rd] show ?thesis
    by simp
qed

text \<open>
  Claim C6. The buffer of an object is a buffer object made before (its identity is
  below the next one to be given out), and stays one after every call. A call replaces
  the buffer object by another exactly when it is \<^verbatim>\<open>read_data\<close>, the capacity is smaller
  than \<open>PacketLen\<close> of the header and the allocation succeeds; the new object then has the
  fresh identity and a strictly larger capacity, \<open>PacketLen\<close>. A call that keeps the
  object keeps its capacity, so no call shrinks the buffer, and a run of the iterator
  leaves the buffer as it is. After any sequence of calls the capacity is not below the
  capacity at the start, nor below \<open>PacketLen\<close> at any \<^verbatim>\<open>read_data\<close> of the sequence
  whose allocation could succeed, nor below the payload length \<open>DataLen\<close> required at
  any such \<^verbatim>\<open>read_data\<close> made on a consistent header (\<open>DataLen \<le> PacketLen\<close>); it
  is the larger of the capacity at the start and the largest \<open>PacketLen\<close> at such a
  \<^verbatim>\<open>read_data\<close>, so nothing else makes the buffer grow.
\<close>

theorem buffer_grows_only:
  assumes "ident (Buffer self) < next_id self"
  shows
  "ident (Buffer (after_call D c self)) < next_id (after_call D c self) \<and>
   ((ident (Buffer (after_call D c self)) \<noteq> ident (Buffer self)) =
      (c = ReadData \<and> buf_length (Buffer self) < requested self \<and>
       requested self \<le> memory self)) \<and>
   (ident (Buffer (after_call D c self)) \<noteq> ident (Buffer self) \<longrightarrow>
      ident (Buffer (after_call D c self)) = next_id self \<and>
      buf_length (Buffer self) < buf_length (Buffer (after_call D c self)) \<and>
      buf_length (Buffer (after_call D c self)) = requested self) \<and>
   (ident (Buffer (after_call D c self)) = ident (Buffer self) \<longrightarrow>
      buf_length (Buffer (after_call D c self)) = buf_length (Buffer self)) \<and>
   buf_length (Buffer self) \<le> buf_length (Buffer (after_call D c self)) \<and>
   (IO_packet_headers n D self ch = Some r \<longrightarrow> Buffer (leaves r) = Buffer self) \<and>
   buf_length (Buffer self) \<le> buf_length (Buffer (run D cs self)) \<and>
   (\<forall>s \<in> set (reads D cs self). requested s \<le> memory s \<longrightarrow>
      requested s \<le> buf_length (Buffer (run D cs self))) \<and>
   (\<forall>s \<in> set (reads D cs self). consistent s \<and> requested s \<le> memory s \<longrightarrow>
      required s \<le> buf_length (Buffer (run D cs self))) \<and>
   buf_length (Buffer (run D cs self)) =
     max (buf_length (Buffer self)) (largest_requested D cs self)"
proof (intro conjI ballI impI)
  show "ident (Buffer (after_call D c self)) < next_id (after_call D c self)"
    using assms by (simp add: after_call_ident after_call_next_id)
  show "(ident (Buffer (after_call D c self)) \<noteq> ident (Buffer self)) =
      (c = ReadData \<and> buf_length (Buffer self) < requested self \<and>
       requested self \<le> memory self)"
    using assms by (simp add: after_call_ident)
  show "ident (Buffer (after_call D c self)) = next_id self"
    if "ident (Buffer (after_call D c self)) \<noteq> ident (Buffer self)"
    using that by (simp add: after_call_ident split: if_splits)
  show "buf_length (Buffer self) < buf_length (Buffer (after_call D c self))"
    if "ident (Buffer (after_call D c self)) \<noteq> ident (Buffer self)"
    using that by (simp add: after_call_ident after_call_length split: if_splits)
  show "buf_length (Buffer (after_call D c self)) = requested self"
    if "ident (Buffer (after_call D c self)) \<noteq> ident (Buffer self)"
    using that by (simp add: after_call_ident after_call_length split: if_splits)
  show "buf_length (Buffer (after_call D c self)) = buf_length (Buffer self)"
    if "ident (Buffer (after_call D c self)) = ident (Buffer self)"
    using that assms by (simp add: after_call_ident after_call_length split: if_splits)
  show "buf_length (Buffer self) \<le> buf_length (Buffer (after_call D c self))"
    by (rule after_call_mono)
  show "Buffer (leaves r) = Buffer self" if "IO_packet_headers n D self ch = Some r"
    using that by (rule packet_headers_Buffer)
  show "buf_length (Buffer self) \<le> buf_length (Buffer (run D cs self))"
    by (rule run_mono)
  show "requested s \<le> buf_length (Buffer (run D cs self))"
    if "s \<in> set (reads D cs self)" and "requested s \<le> memory s" for s
    using that by (rule run_requested)
  show "required s \<le> buf_length (Buffer (run D cs self))"
    if "s \<in> set (reads D cs self)" and "consistent s \<and> requested s \<le> memory s" for s
    using run_requested [of s D cs self] that by (simp add: consistent_def)
  show "buf_length (Buffer (run D cs self)) =
     max (buf_length (Buffer self)) (largest_requested D cs self)"
    by (rule run_length)
qed

text \<open>
  \<^verbatim>\<open>read_data\<close> written out, when the allocation it may need succeeds: the buffer the
  library is given, the size it is told, and where the bytes it writes are put.
\<close>

lemma read_data_eq:
  assumes "requested self \<le> memory self \<or> requested self \<le> buf_length (Buffer self)"
    and "buf_length (Buffer self) < 2 ^ 64"
  shows "IO_read_data D self =
    (case enI106Ch10ReadData D (dll self) (Handle self)
            (word_of_nat (max (buf_length (Buffer self)) (requested self)))
            (if buf_length (Buffer self) < requested self then replicate (requested self) 0
             else raw (Buffer self)) of
       (st, written, d') \<Rightarrow>
         (Inr st,
          self\<lparr>Buffer :=
                 write_buffer
                   (if buf_length (Buffer self) < requested self
                    then create_string_buffer (next_id self) (requested self)
                    else Buffer self) written,
               dll := d',
               next_id := (if buf_length (Buffer self) < requested self
                           then Suc (next_id self) else next_id self)\<rparr>))"
proof -
  have "unat (PacketLen (heap self (Header self))) < 2 ^ LENGTH(32)"
    by (rule unsigned_less)
  then have r: "unat (PacketLen (heap self (Header self))) < 18446744073709551616"
    by simp
  show ?thesis
    using assms r
    by (auto simp: IO_read_data_def I106_Ch10ReadData_def c_int_param_def requested_def
        Let_def max_def split: prod.splits)
qed



lemma heap_reading: "heap (reading src pos cur hist hdr) (Header (reading src pos cur hist hdr)) = hdr"
  by (simp add: reading_def)

lemma payload_header_fields:
  "PacketLen (take 24 payload_recording @ rest) = 28"
  "DataLen (take 24 payload_recording) = 4"
  "length (take 24 payload_recording) = 24"
  "DataLen (take 24 payload_recording @ rest) = 4"
  by (simp_all add: PacketLen_def DataLen_def field_bytes_eq payload_recording_def)

lemma after_payload_header_sizes:
  "required after_payload_header = 4"
  "requested after_payload_header = 28"
  "buf_length (Buffer after_payload_header) = 0"
  "memory after_payload_header = 4294967296"
  "ident (Buffer after_payload_header) = 0"
  "next_id after_payload_header = 1"
  "raw (Buffer after_payload_header) = []"
  by (simp_all add: required_def requested_def after_payload_header_def heap_reading
      payload_header_fields)
     (simp_all add: reading_def)


section \<open>What the calls return\<close>

text \<open>
  Claim C9, as amended. Each operation hands the arguments to the library and returns
  the status the library answers (with the offset, for \<^verbatim>\<open>get_pos\<close>), unless it raises
  before the library is called. \<^verbatim>\<open>open\<close> raises \<^verbatim>\<open>UnicodeEncodeError\<close> for a file name
  with a character that is not ASCII, and \<^verbatim>\<open>ctypes.ArgumentError\<close> for a file mode that
  does not fit 64 bits; the library is given the name up to its first NUL character and
  the low 32 bits of the mode. \<^verbatim>\<open>set_pos\<close> raises \<^verbatim>\<open>ctypes.ArgumentError\<close> for an
  offset that does not fit 64 bits, and gives the library the low 32 bits of the offset,
  sign-extended. \<^verbatim>\<open>read_data\<close> raises \<^verbatim>\<open>MemoryError\<close> when it cannot allocate the
  buffer it needs (and \<^verbatim>\<open>ctypes.ArgumentError\<close> with a buffer beyond the address space).
  A call that raises before the library is called leaves the object as it was. The other
  six operations never raise.
\<close>

theorem call_returns:
  "(case c of
      Open Filename FileMode \<Rightarrow>
        call D c self =
          (if \<not> list_all (\<lambda>x. x < 128) Filename then (Inl UnicodeEncodeError, self)
           else if \<not> (- (2 ^ 63) \<le> FileMode \<and> FileMode < 2 ^ 64)
           then (Inl ArgumentError, self)
           else
             (case enI106Ch10Open D (dll self) 0 (c_string (map of_nat Filename))
                     (word_of_int FileMode) of
                (st, h, d') \<Rightarrow> (Inr (Status st), self\<lparr>Handle := h, dll := d'\<rparr>)))
    | Close \<Rightarrow>
        call D c self =
          (case enI106Ch10Close D (dll self) (Handle self) of
             (st, d') \<Rightarrow> (Inr (Status st), self\<lparr>dll := d'\<rparr>))
    | ReadNextHeader \<Rightarrow>
        call D c self =
          (case enI106Ch10ReadNextHeader D (dll self) (Handle self)
                  (heap self (Header self)) of
             (st, h', d') \<Rightarrow>
               (Inr (Status st), self\<lparr>heap := (heap self)(Header self := h'), dll := d'\<rparr>))
    | ReadPrevHeader \<Rightarrow>
        call D c self =
          (case enI106Ch10ReadPrevHeader D (dll self) (Handle self)
                  (heap self (Header self)) of
             (st, h', d') \<Rightarrow>
               (Inr (Status st), self\<lparr>heap := (heap self)(Header self := h'), dll := d'\<rparr>))
    | ReadData \<Rightarrow>
        (if buf_length (Buffer self) < requested self \<and> memory self < requested self
         then call D c self = (Inl MemoryError, self)
         else if 2 ^ 64 \<le> buf_length (Buffer self)
         then fst (call D c self) = Inl ArgumentError
         else fst (call D c self) =
           Inr (Status (fst (enI106Ch10ReadData D (dll self) (Handle self)
             (word_of_nat (max (buf_length (Buffer self)) (requested self)))
             (if buf_length (Buffer self) < requested self
              then replicate (requested self) 0 else raw (Buffer self))))))
    | First \<Rightarrow>
        call D c self =
          (case enI106Ch10FirstMsg D (dll self) (Handle self) of
             (st, d') \<Rightarrow> (Inr (Status st), self\<lparr>dll := d'\<rparr>))
    | Last \<Rightarrow>
        call D c self =
          (case enI106Ch10LastMsg D (dll self) (Handle self) of
             (st, d') \<Rightarrow> (Inr (Status st), self\<lparr>dll := d'\<rparr>))
    | SetPos offset \<Rightarrow>
        call D c self =
          (if \<not> (- (2 ^ 63) \<le> offset \<and> offset < 2 ^ 64) then (Inl ArgumentError, self)
           else
             (case enI106Ch10SetPos D (dll self) (Handle self)
                     (int_as_64 (word_of_int offset)) of
                (st, d') \<Rightarrow> (Inr (Status st), self\<lparr>dll := d'\<rparr>)))
    | GetPos \<Rightarrow>
        call D c self =
          (case enI106Ch10GetPos D (dll self) (Handle self) 0 of
             (st, offset, d') \<Rightarrow> (Inr (StatusOffset st offset), self\<lparr>dll := d'\<rparr>)))"
proof (cases c)
  case (Open Filename FileMode)
  then show ?thesis
    by (simp add: IO_open_def I106_Ch10Open_def encode_ascii_def c_int_param_def
        split: prod.splits)
next
  case Close
  then show ?thesis
    by (simp add: IO_close_def I106_Ch10Close_def split: prod.splits)
next
  case ReadNextHeader
  then show ?thesis
    by (simp add: IO_read_next_header_def I106_Ch10ReadNextHeader_def split: prod.splits)
next
  case ReadPrevHeader
  then show ?thesis
    by (simp add: IO_read_prev_header_def I106_Ch10ReadPrevHeader_def split: prod.splits)
next
  case ReadData
  have r: "unat (PacketLen (heap self (Header self))) < 18446744073709551616"
    using unsigned_less [of "PacketLen (heap self (Header self))", where 'a = nat]
    by simp
  show ?thesis
  proof (cases "buf_length (Buffer self) < requested self \<and> memory self < requested self")
    case True
    with ReadData show ?thesis
      by (simp add: IO_read_data_def requested_def Let_def)
  next
    case no_error: False
    show ?thesis
    proof (cases "(2 :: nat) ^ 64 \<le> buf_length (Buffer self)")
      case True
      with r have "\<not> buf_length (Buffer self) < requested self"
        by (simp add: requested_def)
      with ReadData no_error True show ?thesis
        by (simp add: IO_read_data_def I106_Ch10ReadData_def c_int_param_def requested_def
            Let_def)
    next
      case False
      then have "buf_length (Buffer self) < 2 ^ 64"
        by simp
      from read_data_eq [OF _ this, of D] no_error
      have "IO_read_data D self =
        (case enI106Ch10ReadData D (dll self) (Handle self)
            (word_of_nat (max (buf_length (Buffer self)) (requested self)))
            (if buf_length (Buffer self) < requested self then replicate (requested self) 0
             else raw (Buffer self)) of
         (st, written, d') \<Rightarrow>
           (Inr st,
            self\<lparr>Buffer :=
                   write_buffer
                     (if buf_length (Buffer self) < requested self
                      then create_string_buffer (next_id self) (requested self)
                      else Buffer self) written,
                 dll := d',
                 next_id := (if buf_length (Buffer self) < requested self
                             then Suc (next_id self) else next_id self)\<rparr>))"
        by auto
      with ReadData no_error False show ?thesis
        by (simp split: prod.splits)
    qed
  qed
next
  case First
  then show ?thesis
    by (simp add: IO_first_def I106_Ch10FirstMsg_def split: prod.splits)
next
  case Last
  then show ?thesis
    by (simp add: IO_last_def I106_Ch10LastMsg_def split: prod.splits)
next
  case (SetPos offset)
  then show ?thesis
    by (simp add: IO_set_pos_def I106_Ch10SetPos_def c_int_param_def split: prod.splits)
next
  case GetPos
  then show ?thesis
    by (simp add: IO_get_pos_def I106_Ch10GetPos_def split: prod.splits)
qed

text \<open>
  On a new object, with the library of the specification: opening the file \<^verbatim>\<open>f\<close>,
  which the library does not have, returns its status \<open>NotFound\<close>, and asking for the
  position returns its status \<open>InvalidHandle\<close>; opening a file named by the one
  character U+00E9 raises, and so do a file mode and an offset of \<open>2\<^sup>6\<^sup>4\<close>.
\<close>

theorem call_returns_witness:
  "call spec_dll (Open [102] READ) unopened = (Inr (Status NotFound), unopened\<lparr>Handle := 0\<rparr>) \<and>
   call spec_dll GetPos unopened = (Inr (StatusOffset InvalidHandle 0), unopened) \<and>
   call spec_dll (Open [233] READ) unopened = (Inl UnicodeEncodeError, unopened) \<and>
   call spec_dll (Open [102] 18446744073709551616) unopened = (Inl ArgumentError, unopened) \<and>
   call spec_dll (SetPos 18446744073709551616) unopened = (Inl ArgumentError, unopened)"
proof (intro conjI)
  show "call spec_dll (Open [102] READ) unopened =
      (Inr (Status NotFound), unopened\<lparr>Handle := 0\<rparr>)"
    using call_returns [where c = "Open [102] READ" and D = spec_dll and self = unopened]
    by (simp add: spec_dll_def spec_Open_def c_string_def unopened_def IO_init_def)
  show "call spec_dll GetPos unopened = (Inr (StatusOffset InvalidHandle 0), unopened)"
    using call_returns [where c = GetPos and D = spec_dll and self = unopened]
    by (simp add: spec_dll_def spec_GetPos_def unopened_def IO_init_def)
  show "call spec_dll (Open [233] READ) unopened = (Inl UnicodeEncodeError, unopened)"
    using call_returns [where c = "Open [233] READ" and D = spec_dll and self = unopened]
    by simp
  show "call spec_dll (Open [102] 18446744073709551616) unopened =
      (Inl ArgumentError, unopened)"
    using call_returns [where c = "Open [102] 18446744073709551616" and D = spec_dll
        and self = unopened]
    by simp
  show "call spec_dll (SetPos 18446744073709551616) unopened = (Inl ArgumentError, unopened)"
    using call_returns [where c = "SetPos 18446744073709551616" and D = spec_dll
        and self = unopened]
    by simp
qed

text \<open>
  Claim C9 as stated fails: \<^verbatim>\<open>open\<close> with the file name \<^verbatim>\<open>\<close>U+00E9\<^verbatim>\<open>.ch10\<close> raises
  \<^verbatim>\<open>UnicodeEncodeError\<close> instead of returning a status; so does \<^verbatim>\<open>open\<close> of the file
  \<^verbatim>\<open>f\<close> with the file mode \<open>2\<^sup>6\<^sup>4\<close>, with \<^verbatim>\<open>ctypes.ArgumentError\<close>, and \<^verbatim>\<open>set_pos\<close>
  with the offset \<open>2\<^sup>6\<^sup>4\<close>.
\<close>

theorem open_raises_counterexample:
  "fst (IO_open spec_dll unopened [233, 46, 99, 104, 49, 48] READ) = Inl UnicodeEncodeError \<and>
   fst (IO_open spec_dll unopened [102] 18446744073709551616) = Inl ArgumentError \<and>
   fst (IO_set_pos spec_dll unopened 18446744073709551616) = Inl ArgumentError"
  by (simp add: IO_open_def I106_Ch10Open_def IO_set_pos_def I106_Ch10SetPos_def
      encode_ascii_def c_int_param_def)

section \<open>The iterator\<close>

lemma while_ends:
  "packet_headers_while n D ch st self = Some r \<Longrightarrow>
     ends r = StopIteration \<and> last_status r \<noteq> OK"
proof (induction n arbitrary: st self r)
  case 0
  then show ?case by simp
next
  case (Suc n)
  show ?case
  proof (cases "st = OK")
    case False
    with Suc.prems show ?thesis by auto
  next
    case True
    obtain st' self' where rd: "IO_read_next_header D self = (st', self')"
      by (cases "IO_read_next_header D self")
    from Suc.prems True rd obtain r' where
      "packet_headers_while n D ch st' self' = Some r'" and "ends r = ends r'"
      and "last_status r = last_status r'"
      by (auto simp: Let_def)
    with Suc.IH show ?thesis by metis
  qed
qed

lemma while_shared:
  "packet_headers_while n D ch st self = Some r \<Longrightarrow>
     list_all (\<lambda>y. fst y = Header self) (yielded r) \<and> Header (leaves r) = Header self"
proof (induction n arbitrary: st self r)
  case 0
  then show ?case by simp
next
  case (Suc n)
  show ?case
  proof (cases "st = OK")
    case False
    with Suc.prems show ?thesis by auto
  next
    case True
    obtain st' self' where rd: "IO_read_next_header D self = (st', self')"
      by (cases "IO_read_next_header D self")
    from Suc.prems True rd obtain r' where
      r': "packet_headers_while n D ch st' self' = Some r'" and
      y: "yielded r = (if passes ch (heap self (Header self)) then [(Header self, heap self)]
                       else []) @ yielded r'"
      and l: "leaves r = leaves r'"
      by (auto simp: Let_def)
    from Suc.IH [OF r'] read_next_header_frame [OF rd]
    have "list_all (\<lambda>y. fst y = Header self) (yielded r')" and "Header (leaves r') = Header self"
      by simp_all
    with y l show ?thesis by simp
  qed
qed

lemma while_manual:
  "map_option (\<lambda>r. (map seen (yielded r), last_status r, leaves r))
     (packet_headers_while (Suc n) D ch st self) =
   (if st = OK
    then map_option (\<lambda>(hs, st', s'). (filter (passes ch) (heap self (Header self) # hs), st', s'))
           (manual_headers n D self)
    else Some ([], st, self))"
proof (induction n arbitrary: st self)
  case 0
  then show ?case
    by (simp split: prod.splits)
next
  case (Suc n)
  show ?case
  proof (cases "st = OK")
    case False
    then show ?thesis by simp
  next
    case True
    obtain st' self' where rd: "IO_read_next_header D self = (st', self')"
      by (cases "IO_read_next_header D self")
    have step: "packet_headers_while (Suc (Suc n)) D ch st self =
        map_option (\<lambda>r. r\<lparr>yielded := (if passes ch (heap self (Header self))
                   then [(Header self, heap self)] else []) @ yielded r\<rparr>)
          (packet_headers_while (Suc n) D ch st' self')"
      using True rd
      by (simp del: packet_headers_while.simps add: packet_headers_while.simps(2) [of "Suc n"])
    show ?thesis
    proof (cases "st' = OK")
      case False
      then show ?thesis
        using True rd by (simp add: seen_def)
    next
      case ok: True
      show ?thesis
        using Suc.IH [of st' self'] ok True rd
        unfolding step
        by (cases "manual_headers n D self'"; cases "packet_headers_while (Suc n) D ch st' self'")
           (auto simp: seen_def option.map_comp comp_def split: prod.splits)
    qed
  qed
qed

lemma packet_headers_manual:
  "map_option (\<lambda>r. (map seen (yielded r), last_status r, leaves r))
     (IO_packet_headers n D self ch) =
   map_option (\<lambda>(hs, st, s). (filter (passes ch) hs, st, s)) (manual_headers n D self)"
proof (cases n)
  case 0
  then show ?thesis by (simp add: IO_packet_headers_def split: prod.splits)
next
  case (Suc m)
  obtain st' self' where rd: "IO_read_next_header D self = (st', self')"
    by (cases "IO_read_next_header D self")
  show ?thesis
    using while_manual [of m D ch st' self'] rd Suc
    by (cases "manual_headers m D self'")
       (auto simp: IO_packet_headers_def simp del: packet_headers_while.simps split: prod.splits)
qed

lemma manual_headers_more_fuel:
  "manual_headers n D self = Some x \<Longrightarrow> manual_headers (n + k) D self = Some x"
proof (induction n arbitrary: self x)
  case 0
  then show ?case by simp
next
  case (Suc n)
  obtain st' self' where rd: "IO_read_next_header D self = (st', self')"
    by (cases "IO_read_next_header D self")
  show ?case
  proof (cases "st' = OK")
    case False
    with Suc.prems rd show ?thesis by simp
  next
    case True
    with Suc.prems rd obtain y where y: "manual_headers n D self' = Some y"
      and x: "x = (case y of (hs, st, s) \<Rightarrow> (heap self' (Header self') # hs, st, s))"
      by auto
    from Suc.IH [OF y] have "manual_headers (n + k) D self' = Some y" .
    with True rd x show ?thesis by simp
  qed
qed

text \<open>
  Claim C1, as amended. The iterator yields the current header after each
  \<^verbatim>\<open>read_next_header\<close> call that returns \<^verbatim>\<open>OK\<close> and passes the filter, and stops without
  error when \<^verbatim>\<open>read_next_header\<close> returns any other status, \<open>EndOfFile\<close> or not: a run
  that ends has ended by \<^verbatim>\<open>StopIteration\<close> on a status other than \<^verbatim>\<open>OK\<close>, which the
  consumer is not given.
\<close>

theorem packet_headers_steps:
  "(IO_read_next_header D self = (st, self') \<and> st \<noteq> OK \<longrightarrow>
      IO_packet_headers (Suc n) D self ch =
        Some \<lparr>yielded = [], last_status = st, ends = StopIteration, leaves = self'\<rparr>) \<and>
   (IO_read_next_header D self = (OK, self') \<longrightarrow>
      IO_packet_headers (Suc n) D self ch =
        map_option
          (\<lambda>r. r\<lparr>yielded := (if length ch = 0 \<or> uint (ChID (heap self' (Header self'))) \<in> set ch
                               then [(Header self', heap self')] else []) @ yielded r\<rparr>)
          (IO_packet_headers n D self' ch)) \<and>
   (IO_packet_headers n D self ch = Some r \<longrightarrow> ends r = StopIteration \<and> last_status r \<noteq> OK)"
proof (intro conjI impI)
  assume "IO_read_next_header D self = (st, self') \<and> st \<noteq> OK"
  then show "IO_packet_headers (Suc n) D self ch =
        Some \<lparr>yielded = [], last_status = st, ends = StopIteration, leaves = self'\<rparr>"
    by (simp add: IO_packet_headers_def)
next
  assume "IO_read_next_header D self = (OK, self')"
  then show "IO_packet_headers (Suc n) D self ch =
        map_option
          (\<lambda>r. r\<lparr>yielded := (if length ch = 0 \<or> uint (ChID (heap self' (Header self'))) \<in> set ch
                               then [(Header self', heap self')] else []) @ yielded r\<rparr>)
          (IO_packet_headers n D self' ch)"
    by (simp add: IO_packet_headers_def passes_def split: prod.splits)
next
  assume "IO_packet_headers n D self ch = Some r"
  then show "ends r = StopIteration" and "last_status r \<noteq> OK"
    by (auto simp: IO_packet_headers_def split: prod.splits dest: while_ends)
qed

text \<open>
  Claim C5. What the iterator yields, as the consumer sees it at each yield, is the
  sequence of headers that reading by hand with \<^verbatim>\<open>read_next_header\<close> sees, in the same
  order, restricted to the headers whose \<open>ChID\<close> is in the filter when the filter is
  not empty; with an empty filter it is that sequence itself. Both end on the same status
  and leave the same state, and both within the same bound on the number of reads; a
  larger bound does not change the result.
\<close>

theorem packet_headers_filter:
  "map_option (\<lambda>r. (map seen (yielded r), last_status r, leaves r))
     (IO_packet_headers n D self ch_ids) =
   map_option
     (\<lambda>(hs, st, s). (filter (\<lambda>h. length ch_ids = 0 \<or> uint (ChID h) \<in> set ch_ids) hs, st, s))
     (manual_headers n D self) \<and>
   map_option (\<lambda>r. (map seen (yielded r), last_status r, leaves r))
     (IO_packet_headers n D self []) = manual_headers n D self \<and>
   (manual_headers n D self = Some x \<longrightarrow> manual_headers (n + k) D self = Some x)"
proof (intro conjI impI)
  have "passes ch_ids = (\<lambda>h. length ch_ids = 0 \<or> uint (ChID h) \<in> set ch_ids)"
    by (simp add: passes_def fun_eq_iff)
  with packet_headers_manual [of n D self ch_ids]
  show "map_option (\<lambda>r. (map seen (yielded r), last_status r, leaves r))
     (IO_packet_headers n D self ch_ids) =
   map_option
     (\<lambda>(hs, st, s). (filter (\<lambda>h. length ch_ids = 0 \<or> uint (ChID h) \<in> set ch_ids) hs, st, s))
     (manual_headers n D self)"
    by simp
  have "passes [] = (\<lambda>h. True)"
    by (simp add: passes_def fun_eq_iff)
  with packet_headers_manual [of n D self "[]"]
  show "map_option (\<lambda>r. (map seen (yielded r), last_status r, leaves r))
     (IO_packet_headers n D self []) = manual_headers n D self"
    by (cases "manual_headers n D self") auto
  show "manual_headers (n + k) D self = Some x" if "manual_headers n D self = Some x"
    using that by (rule manual_headers_more_fuel)
qed

text \<open>
  Claim C10. Every value the iterator yields is the one reference held by the attribute
  \<^verbatim>\<open>Header\<close>, which no call changes. So at each yield the header yielded earlier has,
  in the heap of that moment, the contents of the header just yielded, and after the run
  all the yielded headers have the contents the one object has then.
\<close>

theorem yielded_headers_shared:
  assumes "IO_packet_headers n D self ch = Some r"
  shows "list_all (\<lambda>y. fst y = Header self) (yielded r) \<and>
         Header (leaves r) = Header self \<and>
         (\<forall>i k. i \<le> k \<and> k < length (yielded r) \<longrightarrow>
            snd (yielded r ! k) (fst (yielded r ! i)) = seen (yielded r ! k)) \<and>
         map (\<lambda>y. heap (leaves r) (fst y)) (yielded r) =
           replicate (length (yielded r)) (heap (leaves r) (Header self))"
proof -
  obtain st' self' where rd: "IO_read_next_header D self = (st', self')"
    by (cases "IO_read_next_header D self")
  with assms have w: "packet_headers_while n D ch st' self' = Some r"
    by (simp add: IO_packet_headers_def)
  from while_shared [OF w] read_next_header_frame [OF rd]
  have all: "list_all (\<lambda>y. fst y = Header self) (yielded r)"
    and l: "Header (leaves r) = Header self"
    by simp_all
  then have nth: "\<And>i. i < length (yielded r) \<Longrightarrow> fst (yielded r ! i) = Header self"
    by (simp add: list_all_length)
  have "\<forall>i k. i \<le> k \<and> k < length (yielded r) \<longrightarrow>
            snd (yielded r ! k) (fst (yielded r ! i)) = seen (yielded r ! k)"
    using nth by (simp add: seen_def)
  moreover have "map (\<lambda>y. heap (leaves r) (fst y)) (yielded r) =
           replicate (length (yielded r)) (heap (leaves r) (Header self))"
    using all by (simp add: list_all_iff map_replicate_const [symmetric] cong: map_cong)
  ultimately show ?thesis using all l by blast
qed

section \<open>Reading the example recordings\<close>

lemma read_next_header_reading:
  "IO_read_next_header spec_dll (reading src pos cur hist hdr) =
    (if length src \<le> unat pos then (EndOfFile, reading src pos cur hist hdr)
     else case decode (drop (unat pos) src) of
            Inl e \<Rightarrow> (e, reading src pos cur hist hdr)
          | Inr h \<Rightarrow>
              (OK, reading src (pos + ucast (PacketLen h)) (Some (pos, h)) (pos # hist)
                     (h @ drop (length h) hdr)))"
  by (simp add: IO_read_next_header_def I106_Ch10ReadNextHeader_def spec_dll_def
      spec_ReadNextHeader_def reading_def split: sum.splits)

lemma get_pos_reading:
  "IO_get_pos spec_dll (reading src pos cur hist hdr) = ((OK, pos), reading src pos cur hist hdr)"
  by (simp add: IO_get_pos_def I106_Ch10GetPos_def spec_dll_def spec_GetPos_def reading_def)

lemma length_example_packet: "length (example_packet c ck) = 24"
  by (simp add: example_packet_def)

lemma PacketLen_example_packet: "PacketLen (example_packet c ck) = 24"
  by (simp add: PacketLen_def field_bytes_eq example_packet_def)

lemma ChID_example_packet: "ChID (example_packet c ck @ rest) = ucast c"
  by (simp add: ChID_def field_bytes_eq example_packet_def)

lemmas decode_eval =
  decode_def example_packet_def Sync_def Checksum_def PacketFlags_def field_bytes_eq
  hasSecondaryHeader_def sync_pattern_def

lemma decode_example_packet:
  "decode (example_packet 1 0x3E @ rest) = Inr (example_packet 1 0x3E)"
  "decode (example_packet 5 0x42 @ rest) = Inr (example_packet 5 0x42)"
  "decode (example_packet 2 0x3F @ rest) = Inr (example_packet 2 0x3F)"
  by (simp_all add: decode_eval)

lemma decode_corrupt_recording: "decode corrupt_recording = Inl FormatError"
  by (simp add: corrupt_recording_def decode_eval)

lemma length_recording5: "length recording5 = 120"
  by (simp add: recording5_def length_example_packet)

lemma drop_recording5:
  "drop 24 recording5 = example_packet 5 0x42 @ example_packet 5 0x42 @
     example_packet 2 0x3F @ example_packet 5 0x42"
  "drop 48 recording5 = example_packet 5 0x42 @ example_packet 2 0x3F @ example_packet 5 0x42"
  "drop 72 recording5 = example_packet 2 0x3F @ example_packet 5 0x42"
  "drop 96 recording5 = example_packet 5 0x42 @ []"
  by (simp_all add: recording5_def length_example_packet)

lemma decode_recording5:
  "decode recording5 = Inr (example_packet 1 0x3E)"
  "decode (drop 24 recording5) = Inr (example_packet 5 0x42)"
  "decode (drop 48 recording5) = Inr (example_packet 5 0x42)"
  "decode (drop 72 recording5) = Inr (example_packet 2 0x3F)"
  "decode (drop 96 recording5) = Inr (example_packet 5 0x42)"
  by (simp_all only: drop_recording5 decode_example_packet) (simp add: recording5_def decode_example_packet)

lemmas read5 =
  read_next_header_reading length_recording5 decode_recording5
  PacketLen_example_packet length_example_packet heap_reading

lemma r5_end:
  "manual_headers (Suc n) spec_dll (reading recording5 120 c h x) =
     Some ([], EndOfFile, reading recording5 120 c h x)"
  by (simp add: read5 del: manual_headers.simps add: manual_headers.simps(2) [of n])

lemma r5_4:
  "manual_headers (Suc (Suc n)) spec_dll (reading recording5 96 c h x) =
     Some ([example_packet 5 0x42 @ drop 24 x], EndOfFile,
           reading recording5 120 (Some (96, example_packet 5 0x42)) (96 # h)
             (example_packet 5 0x42 @ drop 24 x))"
  by (simp add: read5 r5_end del: manual_headers.simps add: manual_headers.simps(2) [of "Suc n"])

lemma r5_3:
  "manual_headers (Suc (Suc (Suc n))) spec_dll (reading recording5 72 c h x) =
     Some ([example_packet 2 0x3F @ drop 24 x, example_packet 5 0x42 @ drop 24 x], EndOfFile,
           reading recording5 120 (Some (96, example_packet 5 0x42)) (96 # 72 # h)
             (example_packet 5 0x42 @ drop 24 x))"
  by (simp add: read5 r5_4 del: manual_headers.simps
      add: manual_headers.simps(2) [of "Suc (Suc n)"])

lemma r5_2:
  "manual_headers (Suc (Suc (Suc (Suc n)))) spec_dll (reading recording5 48 c h x) =
     Some ([example_packet 5 0x42 @ drop 24 x, example_packet 2 0x3F @ drop 24 x,
            example_packet 5 0x42 @ drop 24 x], EndOfFile,
           reading recording5 120 (Some (96, example_packet 5 0x42)) (96 # 72 # 48 # h)
             (example_packet 5 0x42 @ drop 24 x))"
  by (simp add: read5 r5_3 del: manual_headers.simps
      add: manual_headers.simps(2) [of "Suc (Suc (Suc n))"])

lemma r5_1:
  "manual_headers (Suc (Suc (Suc (Suc (Suc n))))) spec_dll (reading recording5 24 c h x) =
     Some ([example_packet 5 0x42 @ drop 24 x, example_packet 5 0x42 @ drop 24 x,
            example_packet 2 0x3F @ drop 24 x, example_packet 5 0x42 @ drop 24 x], EndOfFile,
           reading recording5 120 (Some (96, example_packet 5 0x42)) (96 # 72 # 48 # 24 # h)
             (example_packet 5 0x42 @ drop 24 x))"
  by (simp add: read5 r5_2 del: manual_headers.simps
      add: manual_headers.simps(2) [of "Suc (Suc (Suc (Suc n)))"])

lemma r5_0:
  "manual_headers (Suc (Suc (Suc (Suc (Suc (Suc n)))))) spec_dll (reading recording5 0 c h x) =
     Some ([example_packet 1 0x3E @ drop 24 x, example_packet 5 0x42 @ drop 24 x,
            example_packet 5 0x42 @ drop 24 x, example_packet 2 0x3F @ drop 24 x,
            example_packet 5 0x42 @ drop 24 x], EndOfFile,
           reading recording5 120 (Some (96, example_packet 5 0x42))
             (96 # 72 # 48 # 24 # 0 # h) (example_packet 5 0x42 @ drop 24 x))"
  by (simp add: read5 r5_1 del: manual_headers.simps
      add: manual_headers.simps(2) [of "Suc (Suc (Suc (Suc (Suc n))))"])

lemma manual_recording5:
  "manual_headers 6 spec_dll (reading recording5 0 None [] Header_new) =
     Some ([example_packet 1 0x3E @ replicate 12 0, example_packet 5 0x42 @ replicate 12 0,
            example_packet 5 0x42 @ replicate 12 0, example_packet 2 0x3F @ replicate 12 0,
            example_packet 5 0x42 @ replicate 12 0], EndOfFile,
           reading recording5 120 (Some (96, example_packet 5 0x42)) [96, 72, 48, 24, 0]
             (example_packet 5 0x42 @ replicate 12 0))"
proof -
  have six: "(6::nat) = Suc (Suc (Suc (Suc (Suc (Suc 0)))))"
    by simp
  have "drop 24 Header_new = replicate 12 0"
    by (simp add: Header_new_def Header_size_eq)
  with r5_0 [of 0 None "[]" Header_new] show ?thesis
    unfolding six by simp
qed

lemma Header_reading: "Header (reading src pos cur hist hdr) = 0"
  by (simp add: reading_def)

lemma heap_reading_0: "heap (reading src pos cur hist hdr) 0 = hdr"
  by (simp add: reading_def)

lemma replicate_5: "replicate 5 x = [x, x, x, x, x]"
  by (simp add: numeral_eq_Suc)

lemma iterate_recording5:
  "map_option (\<lambda>r. (map seen (yielded r), last_status r, leaves r))
     (IO_packet_headers 6 spec_dll (reading recording5 0 None [] Header_new) ch) =
   Some (filter (passes ch)
           [example_packet 1 0x3E @ replicate 12 0, example_packet 5 0x42 @ replicate 12 0,
            example_packet 5 0x42 @ replicate 12 0, example_packet 2 0x3F @ replicate 12 0,
            example_packet 5 0x42 @ replicate 12 0], EndOfFile,
         reading recording5 120 (Some (96, example_packet 5 0x42)) [96, 72, 48, 24, 0]
           (example_packet 5 0x42 @ replicate 12 0))"
  by (simp only: packet_headers_manual manual_recording5 option.map prod.case)

text \<open>
  The buffer along a sequence of calls on the object that has read the header of the
  packet with payload (\<open>PacketLen\<close> 28, \<open>DataLen\<close> 4): \<^verbatim>\<open>read_data\<close> replaces the
  empty buffer object 0 by the object 1 of 28 bytes, \<^verbatim>\<open>get_pos\<close> keeps the object and
  its capacity. The buffer after a run of the iterator on it, which ends at once since
  the recording has no further packet.
\<close>

theorem buffer_grows_only_witness:
  "ident (Buffer after_payload_header) < next_id after_payload_header \<and>
   buf_length (Buffer after_payload_header) = 0 \<and>
   ident (Buffer (after_call spec_dll ReadData after_payload_header)) = 1 \<and>
   buf_length (Buffer (after_call spec_dll ReadData after_payload_header)) = 28 \<and>
   ident (Buffer (after_call spec_dll GetPos after_payload_header)) = 0 \<and>
   buf_length (Buffer (after_call spec_dll GetPos after_payload_header)) = 0 \<and>
   required after_payload_header = 4 \<and>
   required after_payload_header \<le>
     buf_length (Buffer (run spec_dll [ReadData, GetPos, Close] after_payload_header)) \<and>
   buf_length (Buffer (run spec_dll [ReadData, GetPos, Close] after_payload_header)) = 28 \<and>
   IO_packet_headers (Suc 0) spec_dll after_payload_header [] =
     Some \<lparr>yielded = [], last_status = EndOfFile, ends = StopIteration,
           leaves = after_payload_header\<rparr> \<and>
   Buffer (leaves \<lparr>yielded = [], last_status = EndOfFile, ends = StopIteration,
                   leaves = after_payload_header\<rparr>) = Buffer after_payload_header"
proof -
  let ?r = "\<lparr>yielded = [], last_status = EndOfFile, ends = StopIteration,
             leaves = after_payload_header\<rparr>"
  let ?cs = "[ReadData, GetPos, Close]"
  note sz = after_payload_header_sizes
  have fresh: "ident (Buffer after_payload_header) < next_id after_payload_header"
    by (simp add: sz)
  have "length payload_recording = 28"
    by (simp add: payload_recording_def)
  then have "IO_read_next_header spec_dll after_payload_header = (EndOfFile, after_payload_header)"
    by (simp add: after_payload_header_def read_next_header_reading)
  then have it: "IO_packet_headers (Suc 0) spec_dll after_payload_header [] = Some ?r"
    by (simp add: IO_packet_headers_def)
  note rd = buffer_grows_only [where self = after_payload_header and D = spec_dll
      and c = ReadData and n = "Suc 0" and ch = "[]" and r = ?r and cs = ?cs, OF fresh]
  note gp = buffer_grows_only [where self = after_payload_header and D = spec_dll
      and c = GetPos and n = "Suc 0" and ch = "[]" and r = ?r and cs = ?cs, OF fresh]
  note rd2 = rd [THEN conjunct2]
  note rd3 = rd2 [THEN conjunct2]
  note rd6 = rd3 [THEN conjunct2, THEN conjunct2, THEN conjunct2]
  note rd8 = rd6 [THEN conjunct2, THEN conjunct2]
  from rd2 [THEN conjunct1]
  have new: "ident (Buffer (after_call spec_dll ReadData after_payload_header)) \<noteq>
      ident (Buffer after_payload_header)"
    by (simp add: sz)
  from rd3 [THEN conjunct1, rule_format, OF new]
  have one: "ident (Buffer (after_call spec_dll ReadData after_payload_header)) = 1"
    and cap: "buf_length (Buffer (after_call spec_dll ReadData after_payload_header)) = 28"
    by (simp_all add: sz)
  from gp [THEN conjunct2, THEN conjunct1]
  have same: "ident (Buffer (after_call spec_dll GetPos after_payload_header)) =
      ident (Buffer after_payload_header)"
    by simp
  from gp [THEN conjunct2, THEN conjunct2, THEN conjunct2, THEN conjunct1, rule_format, OF same]
  have kept_cap: "buf_length (Buffer (after_call spec_dll GetPos after_payload_header)) = 0"
    by (simp add: sz)
  have mem: "after_payload_header \<in> set (reads spec_dll ?cs after_payload_header)"
    by simp
  have c: "consistent after_payload_header \<and>
      requested after_payload_header \<le> memory after_payload_header"
    by (simp add: consistent_def sz)
  from rd8 [THEN conjunct2, THEN conjunct2]
  have all: "buf_length (Buffer (run spec_dll ?cs after_payload_header)) = 28"
    by (simp add: sz)
  from rd8 [THEN conjunct2, THEN conjunct1, rule_format, OF mem c]
  have req: "required after_payload_header \<le>
      buf_length (Buffer (run spec_dll ?cs after_payload_header))" .
  have kept: "Buffer (leaves ?r) = Buffer after_payload_header"
    by (rule mp [OF rd6 [THEN conjunct1] it])
  from same have same0: "ident (Buffer (after_call spec_dll GetPos after_payload_header)) = 0"
    by (simp add: sz)
  from fresh sz(3) one cap same0 kept_cap sz(1) req all it kept show ?thesis
    by (intro conjI)
qed

text \<open>
  On the recording with the channels 1, 5, 5, 2, 5: the filter \<open>[5]\<close> yields three
  headers, all of channel 5, and the empty filter yields the five headers in file order.
\<close>

theorem packet_headers_filter_witness:
  "map_option (\<lambda>r. (map ChID (map seen (yielded r)), last_status r))
     (IO_packet_headers 6 spec_dll (reading recording5 0 None [] Header_new) [5]) =
     Some ([5, 5, 5], EndOfFile) \<and>
   map_option (\<lambda>r. (map ChID (map seen (yielded r)), last_status r))
     (IO_packet_headers 6 spec_dll (reading recording5 0 None [] Header_new) []) =
     Some ([1, 5, 5, 2, 5], EndOfFile) \<and>
   manual_headers (6 + 1) spec_dll (reading recording5 0 None [] Header_new) =
     manual_headers 6 spec_dll (reading recording5 0 None [] Header_new)"
proof -
  let ?io = "reading recording5 0 None [] Header_new"
  let ?f = "\<lambda>r :: native iteration. (map seen (yielded r), last_status r, leaves r)"
  let ?g = "\<lambda>x :: Header list \<times> StatusCode \<times> native IO. (map ChID (fst x), fst (snd x))"
  have g: "map_option (\<lambda>r. (map ChID (map seen (yielded r)), last_status r)) X =
      map_option ?g (map_option ?f X)" for X
    by (simp add: option.map_comp comp_def)
  from packet_headers_filter [where n = 6 and D = spec_dll and self = ?io and ch_ids = "[5]"]
  have a: "map_option ?f (IO_packet_headers 6 spec_dll ?io [5]) =
      Some ([example_packet 5 0x42 @ replicate 12 0, example_packet 5 0x42 @ replicate 12 0,
             example_packet 5 0x42 @ replicate 12 0], EndOfFile,
            reading recording5 120 (Some (96, example_packet 5 0x42)) [96, 72, 48, 24, 0]
              (example_packet 5 0x42 @ replicate 12 0))"
    by (simp add: manual_recording5 ChID_example_packet)
  have five: "map_option (\<lambda>r. (map ChID (map seen (yielded r)), last_status r))
     (IO_packet_headers 6 spec_dll ?io [5]) = Some ([5, 5, 5], EndOfFile)"
    by (simp only: g a) (simp add: ChID_example_packet)
  from packet_headers_filter [where n = 6 and D = spec_dll and self = ?io and ch_ids = "[5]"]
  have b: "map_option ?f (IO_packet_headers 6 spec_dll ?io []) =
      manual_headers 6 spec_dll ?io"
    by blast
  have all: "map_option (\<lambda>r. (map ChID (map seen (yielded r)), last_status r))
     (IO_packet_headers 6 spec_dll ?io []) = Some ([1, 5, 5, 2, 5], EndOfFile)"
    by (simp only: g b manual_recording5) (simp add: ChID_example_packet)
  from packet_headers_filter [where n = 6 and D = spec_dll and self = ?io and k = 1]
    manual_recording5
  have "manual_headers (6 + 1) spec_dll ?io = manual_headers 6 spec_dll ?io"
    by simp
  with five all show ?thesis
    by (intro conjI)
qed

text \<open>
  On the same recording, without filter: the five values yielded are the reference 0;
  at the yields the consumer saw the channels 1, 5, 5, 2, 5, and after the run each of
  the five headers it kept is of channel 5.
\<close>

theorem yielded_headers_shared_witness:
  "\<exists>r. IO_packet_headers 6 spec_dll (reading recording5 0 None [] Header_new) [] = Some r \<and>
     map fst (yielded r) = [0, 0, 0, 0, 0] \<and>
     map ChID (map seen (yielded r)) = [1, 5, 5, 2, 5] \<and>
     map ChID (map (\<lambda>y. heap (leaves r) (fst y)) (yielded r)) = [5, 5, 5, 5, 5] \<and>
     ChID (snd (yielded r ! 3) (fst (yielded r ! 0))) = 2"
proof -
  let ?io = "reading recording5 0 None [] Header_new"
  from iterate_recording5 [of "[]"] obtain r where
    r: "IO_packet_headers 6 spec_dll ?io [] = Some r"
    and s: "map seen (yielded r) =
      [example_packet 1 0x3E @ replicate 12 0, example_packet 5 0x42 @ replicate 12 0,
       example_packet 5 0x42 @ replicate 12 0, example_packet 2 0x3F @ replicate 12 0,
       example_packet 5 0x42 @ replicate 12 0]"
    and l: "leaves r = reading recording5 120 (Some (96, example_packet 5 0x42))
      [96, 72, 48, 24, 0] (example_packet 5 0x42 @ replicate 12 0)"
    by (cases "IO_packet_headers 6 spec_dll ?io []") (auto simp: passes_def)
  from s have "length (map seen (yielded r)) = 5"
    by simp
  then have n: "length (yielded r) = 5"
    by simp
  note shared = yielded_headers_shared [OF r]
  have all: "list_all (\<lambda>y. fst y = Header ?io) (yielded r)"
    by (rule shared [THEN conjunct1])
  have after: "map (\<lambda>y. heap (leaves r) (fst y)) (yielded r) =
      replicate (length (yielded r)) (heap (leaves r) (Header ?io))"
    by (rule shared [THEN conjunct2, THEN conjunct2, THEN conjunct2])
  have earlier: "\<forall>i k. i \<le> k \<and> k < length (yielded r) \<longrightarrow>
      snd (yielded r ! k) (fst (yielded r ! i)) = seen (yielded r ! k)"
    by (rule shared [THEN conjunct2, THEN conjunct2, THEN conjunct1])
  from earlier n have "snd (yielded r ! 3) (fst (yielded r ! 0)) = seen (yielded r ! 3)"
    by simp
  also from n have "seen (yielded r ! 3) = map seen (yielded r) ! 3"
    by simp
  finally have fourth: "ChID (snd (yielded r ! 3) (fst (yielded r ! 0))) = 2"
    by (simp add: s ChID_example_packet)
  from all have "map fst (yielded r) = replicate (length (yielded r)) 0"
    by (simp add: Header_reading list_all_iff map_replicate_const [symmetric] cong: map_cong)
  with n have refs: "map fst (yielded r) = [0, 0, 0, 0, 0]"
    by (simp add: replicate_5)
  from after n l have "map (\<lambda>y. heap (leaves r) (fst y)) (yielded r) =
      replicate 5 (example_packet 5 0x42 @ replicate 12 0)"
    by (simp add: Header_reading heap_reading_0)
  then have kept: "map ChID (map (\<lambda>y. heap (leaves r) (fst y)) (yielded r)) = [5, 5, 5, 5, 5]"
    by (simp add: ChID_example_packet replicate_5)
  from s have chans: "map ChID (map seen (yielded r)) = [1, 5, 5, 2, 5]"
    by (simp add: ChID_example_packet)
  show ?thesis
  proof (intro exI conjI)
    show "IO_packet_headers 6 spec_dll ?io [] = Some r"
      by (fact r)
    show "map fst (yielded r) = [0, 0, 0, 0, 0]"
      by (fact refs)
    show "map ChID (map seen (yielded r)) = [1, 5, 5, 2, 5]"
      by (fact chans)
    show "map ChID (map (\<lambda>y. heap (leaves r) (fst y)) (yielded r)) = [5, 5, 5, 5, 5]"
      by (fact kept)
    show "ChID (snd (yielded r ! 3) (fst (yielded r ! 0))) = 2"
      by (fact fourth)
  qed
qed

lemma length_corrupt_recording: "length corrupt_recording = 24"
  by (simp add: corrupt_recording_def length_example_packet)

lemma read_corrupt:
  "IO_read_next_header spec_dll (reading corrupt_recording 0 None [] Header_new) =
     (FormatError, reading corrupt_recording 0 None [] Header_new)"
  by (simp add: read_next_header_reading decode_corrupt_recording length_corrupt_recording)

lemma read_last_of_recording5:
  "IO_read_next_header spec_dll (reading recording5 96 None [] Header_new) =
     (OK, reading recording5 120 (Some (96, example_packet 5 0x42)) [96]
            (example_packet 5 0x42 @ replicate 12 0))"
  by (simp add: read5 Header_new_def Header_size_eq)

lemma read_end_of_recording5:
  "IO_read_next_header spec_dll (reading recording5 120 cur hist hdr) =
     (EndOfFile, reading recording5 120 cur hist hdr)"
  by (simp add: read5)

text \<open>
  The iterator on a recording whose first packet has a corrupt checksum, and on the last
  packet of the recording of five.
\<close>

theorem packet_headers_steps_witness:
  "IO_packet_headers (Suc 0) spec_dll (reading corrupt_recording 0 None [] Header_new) [] =
     Some \<lparr>yielded = [], last_status = FormatError, ends = StopIteration,
           leaves = reading corrupt_recording 0 None [] Header_new\<rparr> \<and>
   IO_packet_headers (Suc (Suc 0)) spec_dll (reading recording5 96 None [] Header_new) [5] =
     Some \<lparr>yielded =
             [(0, heap (reading recording5 120 (Some (96, example_packet 5 0x42)) [96]
                         (example_packet 5 0x42 @ replicate 12 0)))],
           last_status = EndOfFile, ends = StopIteration,
           leaves = reading recording5 120 (Some (96, example_packet 5 0x42)) [96]
                      (example_packet 5 0x42 @ replicate 12 0)\<rparr>"
proof -
  let ?c = "reading corrupt_recording 0 None [] Header_new"
  let ?s = "reading recording5 96 None [] Header_new"
  let ?s' = "reading recording5 120 (Some (96, example_packet 5 0x42)) [96]
               (example_packet 5 0x42 @ replicate 12 0)"
  from packet_headers_steps [where D = spec_dll and self = ?c and st = FormatError
      and self' = ?c and n = 0 and ch = "[]"] read_corrupt
  have a: "IO_packet_headers (Suc 0) spec_dll ?c [] =
     Some \<lparr>yielded = [], last_status = FormatError, ends = StopIteration, leaves = ?c\<rparr>"
    by simp
  from packet_headers_steps [where D = spec_dll and self = ?s' and st = EndOfFile
      and self' = ?s' and n = 0 and ch = "[5]"] read_end_of_recording5
  have b: "IO_packet_headers (Suc 0) spec_dll ?s' [5] =
     Some \<lparr>yielded = [], last_status = EndOfFile, ends = StopIteration, leaves = ?s'\<rparr>"
    by simp
  from packet_headers_steps [where D = spec_dll and self = ?s and self' = ?s'
      and n = "Suc 0" and ch = "[5]"] read_last_of_recording5
  have "IO_packet_headers (Suc (Suc 0)) spec_dll ?s [5] =
      map_option
        (\<lambda>r. r\<lparr>yielded := (if length [5 :: int] = 0 \<or> uint (ChID (heap ?s' (Header ?s'))) \<in> set [5]
                             then [(Header ?s', heap ?s')] else []) @ yielded r\<rparr>)
        (IO_packet_headers (Suc 0) spec_dll ?s' [5])"
    by blast
  then have "IO_packet_headers (Suc (Suc 0)) spec_dll ?s [5] =
     Some \<lparr>yielded = [(0, heap ?s')], last_status = EndOfFile, ends = StopIteration,
           leaves = ?s'\<rparr>"
    unfolding b by (simp add: heap_reading_0 Header_reading ChID_example_packet)
  with a show ?thesis
    by blast
qed

text \<open>
  Claim C1 as stated fails: on a recording whose first packet has a corrupt checksum the
  reading ends on \<open>FormatError\<close>, and on an object that was never opened on
  \<open>InvalidHandle\<close>, and in both cases the iterator yields nothing and ends by
  \<^verbatim>\<open>StopIteration\<close>, as it does at the end of a file.
\<close>

theorem packet_headers_silent_counterexample:
  "map_option (\<lambda>r. (yielded r, last_status r, ends r))
     (IO_packet_headers 1 spec_dll (reading corrupt_recording 0 None [] Header_new) []) =
     Some ([], FormatError, StopIteration) \<and>
   map_option (\<lambda>r. (yielded r, last_status r, ends r))
     (IO_packet_headers 1 spec_dll unopened []) = Some ([], InvalidHandle, StopIteration)"
proof -
  have "IO_read_next_header spec_dll unopened =
      (InvalidHandle, unopened\<lparr>heap := (heap unopened)(Header unopened := heap unopened (Header unopened))\<rparr>)"
    by (simp add: IO_read_next_header_def I106_Ch10ReadNextHeader_def spec_dll_def
        spec_ReadNextHeader_def unopened_def IO_init_def)
  then show ?thesis
    by (simp add: IO_packet_headers_def read_corrupt)
qed

section \<open>Positions in the library of the specification\<close>

lemma decode_error: "decode bs = Inl e \<Longrightarrow> e = FormatError"
  by (auto simp: decode_def split: if_splits)

lemma spec_ReadNextHeader_FormatError:
  "spec_ReadNextHeader d h hdr = (FormatError, hdr', d') \<Longrightarrow>
     d' = d \<and> hdr' = hdr \<and> stream d \<noteq> None"
  by (auto simp: spec_ReadNextHeader_def split: option.splits if_splits sum.splits)

text \<open>
  Claim C7, for the library of the specification. When \<^verbatim>\<open>read_next_header\<close> returns
  \<open>FormatError\<close> the library is in the state it was in, so \<^verbatim>\<open>get_pos\<close> returns the same
  offset after the failed read as before it, with the status \<open>OK\<close>.
\<close>

theorem FormatError_keeps_cursor:
  assumes "IO_read_next_header spec_dll self = (FormatError, self')"
  shows "fst (IO_get_pos spec_dll self') = fst (IO_get_pos spec_dll self) \<and>
         fst (fst (IO_get_pos spec_dll self')) = OK \<and>
         dll self' = dll self"
proof -
  from assms obtain hdr' d' where
    r: "spec_ReadNextHeader (dll self) (Handle self) (heap self (Header self)) =
          (FormatError, hdr', d')"
    and s: "self' = self\<lparr>heap := (heap self)(Header self := hdr'), dll := d'\<rparr>"
    by (auto simp: IO_read_next_header_def I106_Ch10ReadNextHeader_def spec_dll_def
        split: prod.splits)
  from spec_ReadNextHeader_FormatError [OF r]
  have "d' = dll self" and "stream (dll self) \<noteq> None"
    by simp_all
  with s show ?thesis
    by (auto simp: IO_get_pos_def I106_Ch10GetPos_def spec_dll_def spec_GetPos_def
        split: prod.splits option.splits)
qed

text \<open>
  A recording of a good packet followed by one with a corrupt checksum byte, with the
  cursor on the second packet: the read fails and the position stays 24.
\<close>

theorem FormatError_keeps_cursor_witness:
  "fst (IO_read_next_header spec_dll
     (reading (example_packet 1 0x3E @ corrupt_recording) 24 None [] Header_new)) = FormatError \<and>
   fst (IO_get_pos spec_dll (snd (IO_read_next_header spec_dll
     (reading (example_packet 1 0x3E @ corrupt_recording) 24 None [] Header_new)))) = (OK, 24)"
proof -
  let ?io = "reading (example_packet 1 0x3E @ corrupt_recording) 24 None [] Header_new"
  have rd: "IO_read_next_header spec_dll ?io = (FormatError, ?io)"
    by (simp add: read_next_header_reading length_example_packet decode_corrupt_recording
        length_corrupt_recording)
  from FormatError_keeps_cursor [OF rd] show ?thesis
    by (simp add: rd get_pos_reading)
qed

section \<open>The offset of set_pos\<close>

lemma set_pos_reading:
  "- (2 ^ 63) \<le> p \<Longrightarrow> p < 2 ^ 64 \<Longrightarrow>
   IO_set_pos spec_dll (reading src pos cur hist hdr) p =
     (Inr OK,
      reading src (int_as_64 (word_of_int p)) cur
        (filter (\<lambda>at. at < int_as_64 (word_of_int p)) hist) hdr)"
  by (simp add: IO_set_pos_def I106_Ch10SetPos_def c_int_param_def spec_dll_def
      spec_SetPos_def reading_def)

lemma int_as_64_numerals:
  "int_as_64 4294967296 = 0"
  "int_as_64 2147483648 = 0xFFFFFFFF80000000"
  by (simp_all add: int_as_64_def)

text \<open>
  Claim C8. \<^verbatim>\<open>set_pos\<close> passes the Python integer to the library as it is, with no
  \<^verbatim>\<open>c_uint64\<close> around it (as \<^verbatim>\<open>I106_Ch10GetPos\<close> has for its result), so the library
  receives a C \<^verbatim>\<open>int\<close>: the low 32 bits of the offset, sign-extended. With any library,
  \<^verbatim>\<open>set_pos(4294967296)\<close> does what \<^verbatim>\<open>set_pos(0)\<close> does, and \<^verbatim>\<open>set_pos(2147483648)\<close> what
  \<^verbatim>\<open>set_pos(-2147483648)\<close> does. On an open stream of the library of the specification,
  \<^verbatim>\<open>get_pos\<close> after \<^verbatim>\<open>set_pos(4294967296)\<close> returns the offset 0, and after
  \<^verbatim>\<open>set_pos(2147483648)\<close> the offset \<open>0xFFFFFFFF80000000\<close>, both with the status \<open>OK\<close>.
\<close>

theorem set_pos_narrows_offset:
  "IO_set_pos D self 4294967296 = IO_set_pos D self 0 \<and>
   IO_set_pos D self 2147483648 = IO_set_pos D self (- 2147483648) \<and>
   fst (IO_set_pos spec_dll (reading src pos cur hist hdr) 4294967296) = Inr OK \<and>
   fst (IO_get_pos spec_dll
     (snd (IO_set_pos spec_dll (reading src pos cur hist hdr) 4294967296))) = (OK, 0) \<and>
   fst (IO_set_pos spec_dll (reading src pos cur hist hdr) 2147483648) = Inr OK \<and>
   fst (IO_get_pos spec_dll
     (snd (IO_set_pos spec_dll (reading src pos cur hist hdr) 2147483648))) =
     (OK, 0xFFFFFFFF80000000)"
proof (intro conjI)
  show "IO_set_pos D self 4294967296 = IO_set_pos D self 0"
    by (simp add: IO_set_pos_def I106_Ch10SetPos_def c_int_param_def int_as_64_def)
  show "IO_set_pos D self 2147483648 = IO_set_pos D self (- 2147483648)"
    by (simp add: IO_set_pos_def I106_Ch10SetPos_def c_int_param_def int_as_64_def)
  show "fst (IO_set_pos spec_dll (reading src pos cur hist hdr) 4294967296) = Inr OK"
    by (simp add: set_pos_reading)
  show "fst (IO_get_pos spec_dll
     (snd (IO_set_pos spec_dll (reading src pos cur hist hdr) 4294967296))) = (OK, 0)"
    by (simp add: set_pos_reading get_pos_reading int_as_64_numerals)
  show "fst (IO_set_pos spec_dll (reading src pos cur hist hdr) 2147483648) = Inr OK"
    by (simp add: set_pos_reading)
  show "fst (IO_get_pos spec_dll
     (snd (IO_set_pos spec_dll (reading src pos cur hist hdr) 2147483648))) =
     (OK, 0xFFFFFFFF80000000)"
    by (simp add: set_pos_reading get_pos_reading int_as_64_numerals)
qed

lemma int_as_64_of_int: "int_as_64 (word_of_int p) = word_of_int (signed_take_bit 31 p)"
  unfolding int_as_64_def by (simp add: signed_of_int)

text \<open>
  Property X1. What \<^verbatim>\<open>get_pos\<close> returns after \<^verbatim>\<open>set_pos(p)\<close>, on an open stream of
  the library of the specification and for every offset that ctypes accepts: the status
  \<open>OK\<close> and the low 32 bits of \<open>p\<close>, sign-extended to 64 bits. It is the offset \<open>p\<close>
  itself when \<open>0 \<le> p < 2\<^sup>3\<^sup>1\<close>.
\<close>

theorem set_pos_get_pos:
  assumes "stream (dll self) \<noteq> None" and "- (2 ^ 63) \<le> p" and "p < 2 ^ 64"
  shows "fst (IO_set_pos spec_dll self p) = Inr OK \<and>
         fst (IO_get_pos spec_dll (snd (IO_set_pos spec_dll self p))) =
           (OK, word_of_int (signed_take_bit 31 p)) \<and>
         (0 \<le> p \<and> p < 2 ^ 31 \<longrightarrow>
            fst (IO_get_pos spec_dll (snd (IO_set_pos spec_dll self p))) = (OK, word_of_int p))"
proof -
  from assms have r: "fst (IO_set_pos spec_dll self p) = Inr OK"
    and g: "fst (IO_get_pos spec_dll (snd (IO_set_pos spec_dll self p))) =
           (OK, int_as_64 (word_of_int p))"
    by (auto simp: IO_get_pos_def I106_Ch10GetPos_def IO_set_pos_def I106_Ch10SetPos_def
        c_int_param_def spec_dll_def spec_GetPos_def spec_SetPos_def
        split: prod.splits option.splits)
  have "signed_take_bit 31 p = p" if "0 \<le> p \<and> p < 2 ^ 31"
    using that by (intro signed_take_bit_int_eq_self) simp_all
  with r g show ?thesis
    by (simp add: int_as_64_of_int)
qed

text \<open>The offset 24 on the recording of five packets.\<close>

theorem set_pos_get_pos_witness:
  "fst (IO_get_pos spec_dll
     (snd (IO_set_pos spec_dll (reading recording5 0 None [] Header_new) 24))) = (OK, 24)"
proof -
  have "stream (dll (reading recording5 0 None [] Header_new)) \<noteq> None"
    by (simp add: reading_def)
  from set_pos_get_pos [OF this, of 24] show ?thesis
    by simp
qed

end
